theory Spec2Isabelle
  imports Main
begin

section \<open>File trees and paths\<close>

text \<open>
  The script \<^verbatim>\<open>tools/make_image.py\<close> works on two directory trees: the
  replacement tree (the directory \<^verbatim>\<open>azurelinux\<close>) and the root partition of the
  donor image, seen through \<^verbatim>\<open>root_mount\<close>. A tree is a regular file, a tar
  archive (a regular file whose members are known) or a directory, an association list
  in the order \<^verbatim>\<open>os.listdir\<close> reports its entries. Symbolic links are not modelled.
\<close>

datatype node =
    File string
  | Archive "(string \<times> node) list"
  | Dir "(string \<times> node) list"

text \<open>\<^verbatim>\<open>os.path.join(a, b)\<close> for two components.\<close>

definition path_join :: "string \<Rightarrow> string \<Rightarrow> string" where
  "path_join a b =
     (if b \<noteq> [] \<and> hd b = CHR ''/'' then b
      else if a = [] \<or> last a = CHR ''/'' then a @ b
      else a @ ''/'' @ b)"

text \<open>\<^verbatim>\<open>str.startswith\<close>.\<close>

definition startswith :: "string \<Rightarrow> string \<Rightarrow> bool" where
  "startswith s p = (take (length p) s = p)"

text \<open>
  A path relative to a tree is resolved component by component; empty components
  (doubled or trailing slashes) are skipped, as the kernel does.
\<close>

fun components :: "string \<Rightarrow> string \<Rightarrow> string list" where
  "components acc [] = (if acc = [] then [] else [acc])"
| "components acc (c # cs) =
     (if c = CHR ''/'' then (if acc = [] then components [] cs else acc # components [] cs)
      else components (acc @ [c]) cs)"

definition split_path :: "string \<Rightarrow> string list" where
  "split_path p = components [] p"

fun lookup :: "node \<Rightarrow> string list \<Rightarrow> node option" where
  "lookup n [] = Some n"
| "lookup (Dir es) (c # cs) =
     (case map_of es c of None \<Rightarrow> None | Some n \<Rightarrow> lookup n cs)"
| "lookup (File v) (c # cs) = None"
| "lookup (Archive ms) (c # cs) = None"

text \<open>\<^verbatim>\<open>os.path.exists\<close> and \<^verbatim>\<open>os.path.isdir\<close> below a tree.\<close>

definition path_exists :: "node \<Rightarrow> string \<Rightarrow> bool" where
  "path_exists t p = (lookup t (split_path p) \<noteq> None)"

definition path_isdir :: "node \<Rightarrow> string \<Rightarrow> bool" where
  "path_isdir t p = (case lookup t (split_path p) of Some (Dir es) \<Rightarrow> True | _ \<Rightarrow> False)"

text \<open>
  A file name is not empty and holds no slash; the names of one directory are distinct.
\<close>

definition valid_name :: "string \<Rightarrow> bool" where
  "valid_name k = (k \<noteq> [] \<and> CHR ''/'' \<notin> set k)"

fun wf_node :: "node \<Rightarrow> bool" where
  "wf_node (File v) = True"
| "wf_node (Archive ms) = True"
| "wf_node (Dir es) =
     (distinct (map fst es) \<and> list_all (\<lambda>e. valid_name (fst e) \<and> wf_node (snd e)) es)"

section \<open>Errors\<close>

text \<open>
  Every external command of the script is run with \<^verbatim>\<open>check=True\<close>: a non-zero
  exit status raises \<^verbatim>\<open>CalledProcessError\<close>, which carries the status and the
  command. The calls into the Python library raise subclasses of \<^verbatim>\<open>OSError\<close>.
\<close>

datatype cmd =
    MountBind string string
  | Cp string string
  | CpA string string
  | ChrootTdnfUpdate string
  | ChrootTdnfInstall string "string list"
  | ChrootUsermod string string
  | RmF string
  | RmRF string
  | Umount string
  | LosetupFindShow string
  | LosetupDetach string
  | Dosfsck string
  | FsckExt4 string
  | Mount string string
  | TarCreate string "string list" string
  | TarExtract string string
  | Mv string string

datatype oscall =
    Makedirs string
  | OpenWrite string
  | Mkdtemp string
  | Rmtree string

datatype error =
    CalledProcessError nat cmd
  | FileNotFoundError string
  | NotADirectoryError string
  | OSError oscall

section \<open>Preservation set (lines 100 to 117)\<close>

text \<open>
  \<^verbatim>\<open>os.listdir\<close> of a path below a tree: the names of a directory, in its order;
  \<^verbatim>\<open>FileNotFoundError\<close> when nothing is there, \<^verbatim>\<open>NotADirectoryError\<close> when
  it is a file.
\<close>

definition listdir :: "node \<Rightarrow> string \<Rightarrow> error + string list" where
  "listdir t p =
     (case lookup t (split_path p) of
        None \<Rightarrow> Inl (FileNotFoundError p)
      | Some (Dir es) \<Rightarrow> Inr (map fst es)
      | Some other \<Rightarrow> Inl (NotADirectoryError p))"

text \<open>The loop of lines 115 to 117 over the entries of \<^verbatim>\<open>usr/lib\<close>.\<close>

fun collect_rasp :: "string list \<Rightarrow> string list \<Rightarrow> string list" where
  "collect_rasp dirs_to_backup [] = dirs_to_backup"
| "collect_rasp dirs_to_backup (entry # entries) =
     (if startswith entry ''rasp''
      then collect_rasp (dirs_to_backup @ [''usr/lib/'' @ entry]) entries
      else collect_rasp dirs_to_backup entries)"

definition resolve_preservation_set :: "node \<Rightarrow> error + string list" where
  "resolve_preservation_set root =
     (let dirs_to_backup = [];
          dirs_to_backup =
            (if path_exists root ''usr/lib/modules''
             then dirs_to_backup @ [''usr/lib/modules''] else dirs_to_backup);
          dirs_to_backup =
            (if path_exists root ''usr/src''
             then dirs_to_backup @ [''usr/src''] else dirs_to_backup);
          dirs_to_backup =
            (if path_exists root ''usr/lib/firmware''
             then dirs_to_backup @ [''usr/lib/firmware''] else dirs_to_backup)
      in case listdir root ''usr/lib'' of
           Inl e \<Rightarrow> Inl e
         | Inr entries \<Rightarrow> Inr (collect_rasp dirs_to_backup entries))"


section \<open>Editing a tree\<close>

fun update_entry :: "string \<Rightarrow> node \<Rightarrow> (string \<times> node) list \<Rightarrow> (string \<times> node) list" where
  "update_entry k v [] = [(k, v)]"
| "update_entry k v (e # es) =
     (if fst e = k then (k, v) # es else e # update_entry k v es)"

definition remove_entry :: "string \<Rightarrow> (string \<times> node) list \<Rightarrow> (string \<times> node) list" where
  "remove_entry k es = filter (\<lambda>e. fst e \<noteq> k) es"

text \<open>
  Writing \<open>n\<close> over \<open>t\<close>: two directories are merged entry by entry, as
  \<^verbatim>\<open>tar xf\<close> and \<^verbatim>\<open>cp -a\<close> do; anything else is replaced.
\<close>

fun overlay :: "node \<Rightarrow> node \<Rightarrow> node" where
  "overlay (Dir ns) (Dir os) =
     Dir (foldl (\<lambda>acc e. update_entry (fst e)
                   (case map_of acc (fst e) of
                      None \<Rightarrow> snd e
                    | Some old \<Rightarrow> overlay (snd e) old) acc) os ns)"
| "overlay n t = n"

text \<open>Placing a node at a path, creating the directories on the way.\<close>

fun put_path :: "string list \<Rightarrow> node \<Rightarrow> node \<Rightarrow> node" where
  "put_path [] n t = overlay n t"
| "put_path (c # cs) n (Dir es) =
     Dir (update_entry c
            (put_path cs n (case map_of es c of None \<Rightarrow> Dir [] | Some sub \<Rightarrow> sub)) es)"
| "put_path (c # cs) n t = Dir [(c, put_path cs n (Dir []))]"

text \<open>Removing what is at a path (\<^verbatim>\<open>rm -f\<close>, \<^verbatim>\<open>rm -rf\<close>): nothing happens when nothing is there.\<close>

fun remove_path :: "string list \<Rightarrow> node \<Rightarrow> node" where
  "remove_path [] t = t"
| "remove_path [c] (Dir es) = Dir (remove_entry c es)"
| "remove_path (c # cs) (Dir es) =
     Dir (map (\<lambda>e. if fst e = c then (fst e, remove_path cs (snd e)) else e) es)"
| "remove_path (c # cs) t = t"

text \<open>\<^verbatim>\<open>os.makedirs(target, exist_ok=True)\<close> for one directory below the tree.\<close>

definition ensure_dir :: "string \<Rightarrow> node \<Rightarrow> node" where
  "ensure_dir k t =
     (case lookup t [k] of None \<Rightarrow> put_path [k] (Dir []) t | Some n \<Rightarrow> t)"

section \<open>The machine the script runs on\<close>

text \<open>
  What the script can observe or change: the replacement tree, the root partition of the
  donor image, the attached loop devices, the active mounts (source and mount point, bind
  mounts included), the temporary directories, the file at the staging path
  \<^verbatim>\<open>/tmp/raspbian_preserve.tar\<close>, and the log of the external commands that were
  started, each with its exit status.
\<close>

record world =
  tree :: node
  image_root :: node
  loops :: "string list"
  mounted :: "(string \<times> string) list"
  tmpdirs :: "string list"
  staging :: "node option"
  trace :: "(cmd \<times> nat) list"

text \<open>
  What the script does not decide: the exit status of every external command, whether a
  call into the Python library fails, the output of \<^verbatim>\<open>losetup\<close>, the names
  \<^verbatim>\<open>mkdtemp\<close> picks, the random bits, the hash function of \<^verbatim>\<open>passlib\<close>,
  the host's resolver file and what a command run inside the chroot does to the tree.
\<close>

record env =
  status :: "cmd \<Rightarrow> nat"
  os_fails :: "oscall \<Rightarrow> bool"
  losetup_stdout :: string
  tempdir :: string
  mkdtemp_suffix :: "string \<Rightarrow> string"
  getrandbits64 :: nat
  sha512_crypt :: "string \<Rightarrow> nat \<Rightarrow> string \<Rightarrow> string"
  host_resolv_conf :: string
  chroot_effect :: "cmd \<Rightarrow> node \<Rightarrow> node"

text \<open>A statement either returns a value or raises, and leaves a world behind.\<close>

type_synonym 'a prog = "world \<Rightarrow> (error + 'a) \<times> world"

definition ret :: "'a \<Rightarrow> 'a prog" where
  "ret x w = (Inr x, w)"

definition bind_prog :: "'a prog \<Rightarrow> ('a \<Rightarrow> 'b prog) \<Rightarrow> 'b prog" where
  "bind_prog m f w = (case m w of (Inl e, w1) \<Rightarrow> (Inl e, w1) | (Inr x, w1) \<Rightarrow> f x w1)"

definition seq_prog :: "unit prog \<Rightarrow> 'b prog \<Rightarrow> 'b prog" where
  "seq_prog m n = bind_prog m (\<lambda>u. n)"

text \<open>
  Python's \<^verbatim>\<open>try: body finally: fin\<close>: \<open>fin\<close> runs whatever \<open>body\<close> did; an
  exception raised by \<open>fin\<close> is the one that propagates, otherwise the outcome of
  \<open>body\<close> stands.
\<close>

definition try_finally :: "'a prog \<Rightarrow> unit prog \<Rightarrow> 'a prog" where
  "try_finally body fin w =
     (case body w of (r, w1) \<Rightarrow>
        (case fin w1 of (Inl e, w2) \<Rightarrow> (Inl e, w2) | (Inr u, w2) \<Rightarrow> (r, w2)))"

fun for_each :: "'a list \<Rightarrow> ('a \<Rightarrow> unit prog) \<Rightarrow> unit prog" where
  "for_each [] body = ret ()"
| "for_each (x # xs) body = seq_prog (body x) (for_each xs body)"

text \<open>
  \<^verbatim>\<open>subprocess.run(argv, check=True)\<close>: the command is logged with its status; status
  0 applies its effect, any other status raises \<^verbatim>\<open>CalledProcessError\<close>. A command
  that fails changes nothing.
\<close>

definition run_status :: "nat \<Rightarrow> cmd \<Rightarrow> (world \<Rightarrow> world) \<Rightarrow> unit prog" where
  "run_status s c effect w =
     (let w1 = w\<lparr>trace := trace w @ [(c, s)]\<rparr>
      in if s = 0 then (Inr (), effect w1) else (Inl (CalledProcessError s c), w1))"

definition run :: "env \<Rightarrow> cmd \<Rightarrow> (world \<Rightarrow> world) \<Rightarrow> unit prog" where
  "run env c effect = run_status (status env c) c effect"

text \<open>
  The mount table lists the active mounts in the order they were made. \<^verbatim>\<open>umount\<close>
  of a path detaches the mount made last on that path and leaves the ones beneath it; on a
  path where nothing is mounted it fails with status 32 whatever the environment says.
\<close>

fun remove_first :: "('a \<Rightarrow> bool) \<Rightarrow> 'a list \<Rightarrow> 'a list" where
  "remove_first P [] = []"
| "remove_first P (x # xs) = (if P x then xs else x # remove_first P xs)"

definition unmount_top :: "string \<Rightarrow> (string \<times> string) list \<Rightarrow> (string \<times> string) list" where
  "unmount_top target ms = rev (remove_first (\<lambda>m. snd m = target) (rev ms))"

definition is_mounted :: "world \<Rightarrow> string \<Rightarrow> bool" where
  "is_mounted w target = (target \<in> set (map snd (mounted w)))"

definition umount :: "env \<Rightarrow> string \<Rightarrow> unit prog" where
  "umount env target w =
     run_status (if is_mounted w target then status env (Umount target) else 32)
       (Umount target)
       (\<lambda>w. w\<lparr>mounted := unmount_top target (mounted w)\<rparr>) w"

text \<open>A call into the Python library: it raises when the environment says so.\<close>

definition os_call :: "env \<Rightarrow> oscall \<Rightarrow> (world \<Rightarrow> world) \<Rightarrow> unit prog" where
  "os_call env c effect w =
     (if os_fails env c then (Inl (OSError c), w) else (Inr (), effect w))"

text \<open>\<^verbatim>\<open>str.strip\<close>.\<close>

definition is_space :: "char \<Rightarrow> bool" where
  "is_space c = (c \<in> set [CHR '' '', CHR 0x09, CHR 0x0A, CHR 0x0B, CHR 0x0C, CHR 0x0D])"

definition strip :: "string \<Rightarrow> string" where
  "strip s = rev (dropWhile is_space (rev (dropWhile is_space s)))"

text \<open>\<^verbatim>\<open>tempfile.mkdtemp(prefix=...)\<close>.\<close>

definition mkdtemp :: "env \<Rightarrow> string \<Rightarrow> string prog" where
  "mkdtemp env pre =
     (let path = tempdir env @ ''/'' @ pre @ mkdtemp_suffix env pre
      in bind_prog (os_call env (Mkdtemp pre) (\<lambda>w. w\<lparr>tmpdirs := tmpdirs w @ [path]\<rparr>))
           (\<lambda>u. ret path))"

text \<open>\<^verbatim>\<open>subprocess.check_output(argv, text=True)\<close>: as \<open>run\<close>, returning the output.\<close>

definition check_output :: "env \<Rightarrow> cmd \<Rightarrow> string \<Rightarrow> (world \<Rightarrow> world) \<Rightarrow> string prog" where
  "check_output env c out effect = bind_prog (run env c effect) (\<lambda>u. ret out)"

section \<open>Provisioning session (lines 35 to 72)\<close>

text \<open>Lines 36 to 39: the three bind mounts.\<close>

definition bind_pseudo_filesystems :: "env \<Rightarrow> string \<Rightarrow> unit prog" where
  "bind_pseudo_filesystems env azurelinux =
     for_each [''dev'', ''proc'', ''sys''] (\<lambda>fs.
       let target = path_join azurelinux fs
       in seq_prog
            (os_call env (Makedirs target) (\<lambda>w. w\<lparr>tree := ensure_dir fs (tree w)\<rparr>))
            (run env (MountBind (''/'' @ fs) target)
               (\<lambda>w. w\<lparr>mounted := mounted w @ [(''/'' @ fs, target)]\<rparr>)))"

definition fstab_content :: string where
  "fstab_content =
     ''proc /proc proc defaults 0 0'' @ [CHR 0x0A] @
     ''/dev/mmcblk0p2 / ext4 defaults,rw 0 1'' @ [CHR 0x0A] @
     ''/dev/mmcblk0p1 /boot/firmware vfat defaults,rw,nofail 0 1'' @ [CHR 0x0A]"

definition hostname_content :: string where
  "hostname_content = ''azurelinux'' @ [CHR 0x0A]"

text \<open>Lines 36 to 52: everything the session does before its \<^verbatim>\<open>try\<close>.\<close>

definition session_setup :: "env \<Rightarrow> string \<Rightarrow> unit prog" where
  "session_setup env azurelinux =
     (let resolv_src = ''/etc/resolv.conf'';
          resolv_dst = path_join (path_join azurelinux ''etc'') ''resolv.conf'';
          fstab_path = path_join (path_join azurelinux ''etc'') ''fstab'';
          hostname_path = path_join (path_join azurelinux ''etc'') ''hostname''
      in seq_prog (bind_pseudo_filesystems env azurelinux)
        (seq_prog (run env (Cp resolv_src resolv_dst)
                     (\<lambda>w. w\<lparr>tree := put_path [''etc'', ''resolv.conf'']
                                        (File (host_resolv_conf env)) (tree w)\<rparr>))
        (seq_prog (os_call env (OpenWrite fstab_path)
                     (\<lambda>w. w\<lparr>tree := put_path [''etc'', ''fstab''] (File fstab_content) (tree w)\<rparr>))
                  (os_call env (OpenWrite hostname_path)
                     (\<lambda>w. w\<lparr>tree := put_path [''etc'', ''hostname'']
                                        (File hostname_content) (tree w)\<rparr>)))))"

text \<open>
  Line 63: \<^verbatim>\<open>random.getrandbits(64).to_bytes(8, 'big').hex()\<close>, sixteen hexadecimal
  digits.
\<close>

definition to_bytes_big :: "nat \<Rightarrow> nat \<Rightarrow> nat list" where
  "to_bytes_big len n = map (\<lambda>i. (n div 256 ^ (len - 1 - i)) mod 256) [0..<len]"

definition hex_digit :: "nat \<Rightarrow> char" where
  "hex_digit d = ''0123456789abcdef'' ! d"

definition hex_of_bytes :: "nat list \<Rightarrow> string" where
  "hex_of_bytes bs = concat (map (\<lambda>b. [hex_digit (b div 16), hex_digit (b mod 16)]) bs)"

definition password_salt :: "env \<Rightarrow> string" where
  "password_salt env = hex_of_bytes (to_bytes_big 8 (getrandbits64 env mod 2 ^ 64))"

definition packages :: "string list" where
  "packages =
     [''systemd'', ''shadow-utils'', ''openssh'', ''iproute'',
      ''sudo'', ''procps-ng'', ''less'', ''vim'', ''vim-extra'',
      ''man-pages'', ''man-db'', ''which'', ''wpa_supplicant'',
      ''file'', ''bash-completion'', ''chrony'', ''dhcpcd'']"

text \<open>Lines 55 to 65: the body of the \<^verbatim>\<open>try\<close>.\<close>

definition chroot_run :: "env \<Rightarrow> cmd \<Rightarrow> unit prog" where
  "chroot_run env c = run env c (\<lambda>w. w\<lparr>tree := chroot_effect env c (tree w)\<rparr>)"

definition session_commands :: "env \<Rightarrow> string \<Rightarrow> unit prog" where
  "session_commands env azurelinux =
     seq_prog (chroot_run env (ChrootTdnfUpdate azurelinux))
    (seq_prog (chroot_run env (ChrootTdnfInstall azurelinux packages))
       (let password_hash = sha512_crypt env (password_salt env) 5000 ''azl''
        in chroot_run env (ChrootUsermod azurelinux password_hash)))"

text \<open>Lines 67 to 72: the \<^verbatim>\<open>finally\<close>.\<close>

definition session_release :: "env \<Rightarrow> string \<Rightarrow> unit prog" where
  "session_release env azurelinux =
     (let resolv_dst = path_join (path_join azurelinux ''etc'') ''resolv.conf''
      in seq_prog (run env (RmF resolv_dst)
                     (\<lambda>w. w\<lparr>tree := remove_path [''etc'', ''resolv.conf''] (tree w)\<rparr>))
           (for_each [''dev'', ''proc'', ''sys'']
              (\<lambda>fs. umount env (path_join azurelinux fs))))"

definition provisioning_session :: "env \<Rightarrow> string \<Rightarrow> unit prog" where
  "provisioning_session env azurelinux =
     seq_prog (session_setup env azurelinux)
       (try_finally (session_commands env azurelinux) (session_release env azurelinux))"

section \<open>Mounting the image and replacing its root (lines 74 to 170)\<close>

text \<open>
  The statements below run between the two \<^verbatim>\<open>mount\<close> commands and the release, so
  a path below \<^verbatim>\<open>root_mount\<close> is a path of the root partition, and a path below
  \<^verbatim>\<open>azurelinux\<close> is a path of the replacement tree.
\<close>

text \<open>Lines 88 and 89.\<close>

definition mount_partitions :: "env \<Rightarrow> string \<Rightarrow> string \<Rightarrow> string \<Rightarrow> unit prog" where
  "mount_partitions env loop_device boot_mount root_mount =
     seq_prog
       (run env (Mount (loop_device @ ''p1'') boot_mount)
          (\<lambda>w. w\<lparr>mounted := mounted w @ [(loop_device @ ''p1'', boot_mount)]\<rparr>))
       (run env (Mount (loop_device @ ''p2'') root_mount)
          (\<lambda>w. w\<lparr>mounted := mounted w @ [(loop_device @ ''p2'', root_mount)]\<rparr>))"

text \<open>
  Lines 118 to 125. \<^verbatim>\<open>tar cf\<close> writes the archive into the root partition;
  \<^verbatim>\<open>mv\<close> takes it to the staging path.
\<close>

definition archive_members :: "node \<Rightarrow> string list \<Rightarrow> (string \<times> node) list" where
  "archive_members root dirs =
     concat (map (\<lambda>p. case lookup root (split_path p) of
                         None \<Rightarrow> [] | Some n \<Rightarrow> [(p, n)]) dirs)"

definition archive_preservation_set :: "env \<Rightarrow> string \<Rightarrow> string list \<Rightarrow> unit prog" where
  "archive_preservation_set env root_mount dirs_to_backup =
     (let backup_tar = path_join root_mount ''raspbian_preserve.tar'';
          backup_tar_tmp = ''/tmp/raspbian_preserve.tar''
      in if dirs_to_backup \<noteq> [] then
           seq_prog
             (run env (TarCreate backup_tar dirs_to_backup root_mount)
                (\<lambda>w. w\<lparr>image_root :=
                         put_path [''raspbian_preserve.tar'']
                           (Archive (archive_members (image_root w) dirs_to_backup))
                           (image_root w)\<rparr>))
             (run env (Mv backup_tar backup_tar_tmp)
                (\<lambda>w. w\<lparr>staging := lookup (image_root w) [''raspbian_preserve.tar''],
                        image_root := remove_path [''raspbian_preserve.tar''] (image_root w)\<rparr>))
         else ret ())"

text \<open>Lines 128 to 135.\<close>

definition wipe_root :: "env \<Rightarrow> string \<Rightarrow> unit prog" where
  "wipe_root env root_mount =
     bind_prog (\<lambda>w. (listdir (image_root w) [], w)) (\<lambda>entries.
       for_each entries (\<lambda>entry.
         if entry = ''boot'' then ret ()
         else (let entry_path = path_join root_mount entry
               in (\<lambda>w. (if path_isdir (image_root w) entry
                         then run env (RmRF entry_path)
                                (\<lambda>w. w\<lparr>image_root := remove_path (split_path entry) (image_root w)\<rparr>)
                         else run env (RmF entry_path)
                                (\<lambda>w. w\<lparr>image_root := remove_path (split_path entry) (image_root w)\<rparr>))
                        w))))"

text \<open>
  Lines 138 to 144. \<^verbatim>\<open>cp\<close> onto an existing directory copies into it; otherwise
  the destination is created or overwritten.
\<close>

definition cp_into :: "string \<Rightarrow> node option \<Rightarrow> node \<Rightarrow> node" where
  "cp_into entry src root =
     (case src of
        None \<Rightarrow> root
      | Some n \<Rightarrow>
          if path_isdir root entry
          then put_path (split_path entry @ split_path entry) n root
          else put_path (split_path entry) n (remove_path (split_path entry) root))"

definition copy_tree :: "env \<Rightarrow> string \<Rightarrow> string \<Rightarrow> unit prog" where
  "copy_tree env azurelinux root_mount =
     bind_prog (\<lambda>w. (listdir (tree w) [], w)) (\<lambda>entries.
       for_each entries (\<lambda>entry.
         let src = path_join azurelinux entry;
             dst = path_join root_mount entry
         in (\<lambda>w. (if path_isdir (tree w) entry
                   then run env (CpA src dst)
                          (\<lambda>w. w\<lparr>image_root :=
                                   cp_into entry (lookup (tree w) (split_path entry)) (image_root w)\<rparr>)
                   else run env (Cp src dst)
                          (\<lambda>w. w\<lparr>image_root :=
                                   cp_into entry (lookup (tree w) (split_path entry)) (image_root w)\<rparr>))
                  w)))"

text \<open>Lines 147 to 155.\<close>

definition extract_archive :: "node option \<Rightarrow> node \<Rightarrow> node" where
  "extract_archive a root =
     (case a of
        Some (Archive ms) \<Rightarrow> foldl (\<lambda>t m. put_path (split_path (fst m)) (snd m) t) root ms
      | _ \<Rightarrow> root)"

definition restore_preserved :: "env \<Rightarrow> string \<Rightarrow> unit prog" where
  "restore_preserved env root_mount =
     (let backup_tar_tmp = ''/tmp/raspbian_preserve.tar''
      in (\<lambda>w. (if staging w \<noteq> None then
                  seq_prog
                    (run env (TarExtract backup_tar_tmp root_mount)
                       (\<lambda>w. w\<lparr>image_root := extract_archive (staging w) (image_root w)\<rparr>))
                    (run env (RmF backup_tar_tmp) (\<lambda>w. w\<lparr>staging := None\<rparr>))
                else ret ()) w))"

text \<open>Lines 98 to 155: the body of the \<^verbatim>\<open>try\<close> after the two mounts.\<close>

definition replace_root :: "env \<Rightarrow> string \<Rightarrow> string \<Rightarrow> unit prog" where
  "replace_root env azurelinux root_mount =
     bind_prog (\<lambda>w. (resolve_preservation_set (image_root w), w)) (\<lambda>dirs_to_backup.
       seq_prog (archive_preservation_set env root_mount dirs_to_backup)
      (seq_prog (wipe_root env root_mount)
      (seq_prog (copy_tree env azurelinux root_mount)
                (restore_preserved env root_mount))))"

text \<open>Lines 165 to 170: the \<^verbatim>\<open>finally\<close> (the five-second sleep changes nothing).\<close>

definition release :: "env \<Rightarrow> string \<Rightarrow> string \<Rightarrow> string \<Rightarrow> unit prog" where
  "release env loop_device boot_mount root_mount =
     seq_prog (umount env boot_mount)
    (seq_prog (umount env root_mount)
    (seq_prog (run env (LosetupDetach loop_device)
                 (\<lambda>w. w\<lparr>loops := removeAll loop_device (loops w)\<rparr>))
    (seq_prog (os_call env (Rmtree boot_mount)
                 (\<lambda>w. w\<lparr>tmpdirs := removeAll boot_mount (tmpdirs w)\<rparr>))
              (os_call env (Rmtree root_mount)
                 (\<lambda>w. w\<lparr>tmpdirs := removeAll root_mount (tmpdirs w)\<rparr>)))))"

definition mount_and_replace :: "env \<Rightarrow> string \<Rightarrow> string \<Rightarrow> unit prog" where
  "mount_and_replace env raspbian azurelinux =
     bind_prog
       (check_output env (LosetupFindShow raspbian) (losetup_stdout env)
          (\<lambda>w. w\<lparr>loops := loops w @ [strip (losetup_stdout env)]\<rparr>))
       (\<lambda>out. let loop_device = strip out in
          seq_prog (run env (Dosfsck (loop_device @ ''p1'')) (\<lambda>w. w))
         (seq_prog (run env (FsckExt4 (loop_device @ ''p2'')) (\<lambda>w. w))
         (bind_prog (mkdtemp env ''mnt_boot_'') (\<lambda>boot_mount.
          bind_prog (mkdtemp env ''mnt_root_'') (\<lambda>root_mount.
            try_finally
              (seq_prog (mount_partitions env loop_device boot_mount root_mount)
                        (replace_root env azurelinux root_mount))
              (release env loop_device boot_mount root_mount))))))"

section \<open>The pipeline\<close>

definition combine_images :: "env \<Rightarrow> string \<Rightarrow> string \<Rightarrow> unit prog" where
  "combine_images env raspbian azurelinux =
     seq_prog (provisioning_session env azurelinux)
              (mount_and_replace env raspbian azurelinux)"

section \<open>The preservation set as the design describes it\<close>

text \<open>
  The design document gives four rules, each adding to the set on its own: the three
  fixed paths that exist, in the order modules, sources, firmware, then every entry
  directly under \<^verbatim>\<open>usr/lib\<close> whose name begins with the vendor prefix.
\<close>

definition preservation_set_spec :: "node \<Rightarrow> string list" where
  "preservation_set_spec root =
     filter (path_exists root) [''usr/lib/modules'', ''usr/src'', ''usr/lib/firmware''] @
     map (\<lambda>entry. ''usr/lib/'' @ entry)
       (filter (\<lambda>entry. startswith entry ''rasp'')
          (case listdir root ''usr/lib'' of Inl e \<Rightarrow> [] | Inr entries \<Rightarrow> entries))"

section \<open>Example inputs\<close>

text \<open>A donor root with kernel modules and one vendor entry.\<close>

definition donor_root :: node where
  "donor_root =
     Dir [(''boot'', Dir [(''kernel.img'', File ''k'')]),
          (''usr'', Dir [(''lib'', Dir [(''modules'', Dir [(''y.ko'', File ''y'')]),
                                        (''raspi-config'', File ''c''),
                                        (''systemd'', Dir [])])]),
          (''etc'', Dir [(''passwd'', File ''p'')])]"

section \<open>Statements with a precondition and two postconditions\<close>

text \<open>
  \<open>hoare P m Q E\<close>: started in a world where \<open>P\<close> holds, \<open>m\<close> leaves a world
  where \<open>Q\<close> holds of its value when it returns, and where \<open>E\<close> holds of its error
  when it raises.
\<close>

definition hoare ::
  "(world \<Rightarrow> bool) \<Rightarrow> 'a prog \<Rightarrow> ('a \<Rightarrow> world \<Rightarrow> bool) \<Rightarrow> (error \<Rightarrow> world \<Rightarrow> bool) \<Rightarrow> bool" where
  "hoare P m Q E =
     (\<forall>w r w'. P w \<longrightarrow> m w = (r, w') \<longrightarrow> (case r of Inl e \<Rightarrow> E e w' | Inr x \<Rightarrow> Q x w'))"

definition top_entries :: "node \<Rightarrow> string list" where
  "top_entries t = (case listdir t [] of Inl e \<Rightarrow> [] | Inr entries \<Rightarrow> entries)"

definition example_env :: env where
  "example_env =
     \<lparr>status = (\<lambda>c. 0), os_fails = (\<lambda>c. False),
      losetup_stdout = ''/dev/loop0'' @ [CHR 0x0A], tempdir = ''/tmp'',
      mkdtemp_suffix = (\<lambda>pre. ''k3x9wq_a''), getrandbits64 = 255,
      sha512_crypt = (\<lambda>salt rounds secret. ''$6$'' @ salt @ ''$'' @ secret),
      host_resolv_conf = ''nameserver 192.0.2.1'', chroot_effect = (\<lambda>c t. t)\<rparr>"

definition example_world :: world where
  "example_world =
     \<lparr>tree = Dir [(''etc'', Dir [(''os-release'', File ''azl'')]),
                  (''usr'', Dir [(''bin'', Dir [])])],
      image_root = donor_root, loops = [], mounted = [], tmpdirs = [], staging = None,
      trace = []\<rparr>"

definition bare_root :: node where
  "bare_root = Dir [(''boot'', Dir [(''kernel.img'', File ''k'')]),
                    (''etc'', Dir [(''passwd'', File ''p'')])]"

definition tar_fails_env :: env where
  "tar_fails_env =
     example_env\<lparr>status :=
       (\<lambda>c. if c = TarCreate ''/tmp/mnt_root_k3x9wq_a/raspbian_preserve.tar''
                        [''usr/lib/modules'', ''usr/lib/raspi-config'']
                        ''/tmp/mnt_root_k3x9wq_a''
            then 2 else 0)\<rparr>"

definition keeps :: "(world \<Rightarrow> bool) \<Rightarrow> 'a prog \<Rightarrow> bool" where
  "keeps I m = hoare I m (\<lambda>u. I) (\<lambda>e. I)"

definition fsck_fails_env :: env where
  "fsck_fails_env =
     example_env\<lparr>status := (\<lambda>c. if c = Dosfsck ''/dev/loop0p1'' then 1 else 0)\<rparr>"

definition mount_fails_env :: env where
  "mount_fails_env =
     example_env\<lparr>status :=
       (\<lambda>c. if c = Mount ''/dev/loop0p1'' ''/tmp/mnt_boot_k3x9wq_a'' then 32 else 0)\<rparr>"

definition fsck_repaired_env :: env where
  "fsck_repaired_env =
     example_env\<lparr>status := (\<lambda>c. if c = FsckExt4 ''/dev/loop0p2'' then 1 else 0)\<rparr>"



definition plain_root :: node where
  "plain_root =
     Dir [(''boot'', Dir [(''kernel.img'', File ''k'')]),
          (''usr'', Dir [(''lib'', Dir [(''systemd'', Dir [])])]),
          (''etc'', Dir [(''passwd'', File ''p'')])]"

definition stale_world :: world where
  "stale_world =
     example_world\<lparr>image_root := plain_root,
       staging := Some (Archive [(''usr/lib/modules'', Dir [(''old.ko'', File ''o'')])])\<rparr>"

definition is_mount :: "cmd \<Rightarrow> bool" where
  "is_mount c = (case c of Mount d p \<Rightarrow> True | _ \<Rightarrow> False)"

definition succeeded :: "(cmd \<times> nat) list \<Rightarrow> cmd list" where
  "succeeded t = map fst (filter (\<lambda>x. snd x = 0) t)"

fun precedes :: "'a \<Rightarrow> 'a \<Rightarrow> 'a list \<Rightarrow> bool" where
  "precedes a b [] = False"
| "precedes a b (x # xs) = (if x = a then b \<in> set xs else precedes a b xs)"


text \<open>A root with kernel sources and no \<^verbatim>\<open>usr/lib\<close>.\<close>

definition src_only_root :: node where
  "src_only_root =
     Dir [(''boot'', Dir [(''kernel.img'', File ''k'')]),
          (''usr'', Dir [(''src'', Dir [(''linux-headers'', Dir [])])])]"


section \<open>Classes of commands and further example inputs\<close>

text \<open>The commands of the archive step and of the restore step.\<close>

definition is_archive_cmd :: "cmd \<Rightarrow> bool" where
  "is_archive_cmd c =
     (case c of TarCreate a ds d \<Rightarrow> True | TarExtract a d \<Rightarrow> True | Mv a b \<Rightarrow> True | _ \<Rightarrow> False)"

text \<open>The commands the replacement (lines 118 to 155) can start.\<close>

definition replace_cmd :: "cmd \<Rightarrow> bool" where
  "replace_cmd c =
     (case c of TarCreate a ds d \<Rightarrow> True | Mv a b \<Rightarrow> True | RmRF p \<Rightarrow> True | RmF p \<Rightarrow> True
      | CpA a b \<Rightarrow> True | Cp a b \<Rightarrow> True | TarExtract a d \<Rightarrow> True | _ \<Rightarrow> False)"

text \<open>The \<^verbatim>\<open>umount\<close> commands.\<close>

definition is_umount :: "cmd \<Rightarrow> bool" where
  "is_umount c = (case c of Umount p \<Rightarrow> True | _ \<Rightarrow> False)"

text \<open>
  \<^verbatim>\<open>tar cf\<close> exits with status 2 and \<^verbatim>\<open>umount\<close> of the boot mount point with
  status 32; every other command succeeds.
\<close>

definition tar_umount_fail_env :: env where
  "tar_umount_fail_env =
     example_env\<lparr>status :=
       (\<lambda>c. if c = TarCreate ''/tmp/mnt_root_k3x9wq_a/raspbian_preserve.tar''
                        [''usr/lib/modules'', ''usr/lib/raspi-config'']
                        ''/tmp/mnt_root_k3x9wq_a''
            then 2
            else if c = Umount ''/tmp/mnt_boot_k3x9wq_a'' then 32 else 0)\<rparr>"

section \<open>Properties of paths and of the preservation set\<close>

lemma components_no_slash:
  "CHR ''/'' \<notin> set e \<Longrightarrow> components acc e = (if acc @ e = [] then [] else [acc @ e])"
  by (induction e arbitrary: acc) auto

lemma split_path_usr_lib_entry:
  "valid_name e \<Longrightarrow> split_path (''usr/lib/'' @ e) = [''usr'', ''lib'', e]"
  by (simp add: split_path_def valid_name_def components_no_slash)

lemma split_path_fixed:
  "split_path ''usr/lib'' = [''usr'', ''lib'']"
  "split_path ''usr/lib/modules'' = [''usr'', ''lib'', ''modules'']"
  "split_path ''usr/src'' = [''usr'', ''src'']"
  "split_path ''usr/lib/firmware'' = [''usr'', ''lib'', ''firmware'']"
  by (simp_all add: split_path_def)

lemma collect_rasp_eq:
  "collect_rasp acc es =
     acc @ map (\<lambda>e. ''usr/lib/'' @ e) (filter (\<lambda>e. startswith e ''rasp'') es)"
  by (induction es arbitrary: acc) auto

lemma wf_lookup: "wf_node t \<Longrightarrow> lookup t p = Some n \<Longrightarrow> wf_node n"
proof (induction t p rule: lookup.induct)
  case (2 es c cs)
  then show ?case
    by (auto split: option.splits dest!: map_of_SomeD simp: list_all_iff)
qed auto

lemma lookup_append:
  "lookup t p = Some n \<Longrightarrow> lookup t (p @ q) = lookup n q"
  by (induction t p rule: lookup.induct) (auto split: option.splits)

lemma resolve_eq_spec:
  "path_isdir root ''usr/lib'' \<Longrightarrow>
     resolve_preservation_set root = Inr (preservation_set_spec root)"
  by (auto simp: resolve_preservation_set_def preservation_set_spec_def path_isdir_def
        listdir_def collect_rasp_eq Let_def split: option.splits node.splits)

lemma usr_lib_entry_exists:
  assumes "wf_node root" "lookup root [''usr'', ''lib''] = Some (Dir es)" "e \<in> fst ` set es"
  shows "path_exists root (''usr/lib/'' @ e)"
proof -
  have wf: "wf_node (Dir es)" using assms(1,2) by (rule wf_lookup)
  then have "valid_name e" using assms(3) by (auto simp: list_all_iff)
  then have sp: "split_path (''usr/lib/'' @ e) = [''usr'', ''lib''] @ [e]"
    using split_path_usr_lib_entry [of e] by simp
  have "map_of es e \<noteq> None" using assms(3) by (simp add: map_of_eq_None_iff)
  then have "lookup (Dir es) [e] \<noteq> None" by (auto split: option.splits)
  then show ?thesis
    unfolding path_exists_def sp using lookup_append [OF assms(2), of "[e]"] by simp
qed

lemma spec_exists:
  assumes "wf_node root" "path_isdir root ''usr/lib''"
  shows "\<forall>p \<in> set (preservation_set_spec root). path_exists root p"
proof -
  from assms(2) obtain es where es: "lookup root [''usr'', ''lib''] = Some (Dir es)"
    by (auto simp: path_isdir_def split_path_fixed split: option.splits node.splits)
  then have ld: "listdir root ''usr/lib'' = Inr (map fst es)"
    by (simp add: listdir_def split_path_fixed)
  show ?thesis
    using usr_lib_entry_exists [OF assms(1) es]
    by (auto simp: preservation_set_spec_def ld)
qed

lemma spec_distinct:
  assumes "wf_node root" "path_isdir root ''usr/lib''"
  shows "distinct (preservation_set_spec root)"
proof -
  from assms(2) obtain es where es: "lookup root [''usr'', ''lib''] = Some (Dir es)"
    by (auto simp: path_isdir_def split_path_fixed split: option.splits node.splits)
  then have ld: "listdir root ''usr/lib'' = Inr (map fst es)"
    by (simp add: listdir_def split_path_fixed)
  have "wf_node (Dir es)" using assms(1) es by (rule wf_lookup)
  then have d: "distinct (map fst es)" by simp
  have d2: "distinct (map (\<lambda>entry. ''usr/lib/'' @ entry)
               (filter (\<lambda>entry. startswith entry ''rasp'') (map fst es)))"
    using d by (simp add: distinct_map inj_on_def)
  show ?thesis
    using d2 by (auto simp: preservation_set_spec_def ld startswith_def)
qed

text \<open>
  Claim C3, amended. For every well-formed mounted root in which \<^verbatim>\<open>usr/lib\<close> is a
  directory, the resolved preservation set is exactly the list the design describes:
  those of \<^verbatim>\<open>usr/lib/modules\<close>, \<^verbatim>\<open>usr/src\<close>, \<^verbatim>\<open>usr/lib/firmware\<close> that exist,
  in this order, followed by every entry directly under \<^verbatim>\<open>usr/lib\<close> whose name
  begins with \<^verbatim>\<open>rasp\<close>; no rule stops another one; the list has no duplicates;
  every path in it exists in the root.
\<close>

theorem preservation_set_exact:
  assumes "wf_node root" and "path_isdir root ''usr/lib''"
  shows "resolve_preservation_set root = Inr (preservation_set_spec root) \<and>
         distinct (preservation_set_spec root) \<and>
         (\<forall>p \<in> set (preservation_set_spec root). path_exists root p)"
  using resolve_eq_spec [OF assms(2)] spec_distinct [OF assms] spec_exists [OF assms]
  by blast

lemma donor_root_wf: "wf_node donor_root"
  by (simp add: donor_root_def valid_name_def)

lemma donor_root_usr_lib: "path_isdir donor_root ''usr/lib''"
  by (simp add: donor_root_def path_isdir_def split_path_def)

lemma donor_spec: "preservation_set_spec donor_root = [''usr/lib/modules'', ''usr/lib/raspi-config'']"
  by (simp add: preservation_set_spec_def donor_root_def path_exists_def split_path_def listdir_def startswith_def)

theorem preservation_set_exact_witness:
  "wf_node donor_root \<and> path_isdir donor_root ''usr/lib'' \<and>
   resolve_preservation_set donor_root = Inr [''usr/lib/modules'', ''usr/lib/raspi-config''] \<and>
   distinct [''usr/lib/modules'', ''usr/lib/raspi-config''] \<and>
   path_exists donor_root ''usr/lib/modules'' \<and>
   path_exists donor_root ''usr/lib/raspi-config''"
  using preservation_set_exact [OF donor_root_wf donor_root_usr_lib] donor_root_wf donor_root_usr_lib
  unfolding donor_spec by simp

text \<open>
  Claim C3 as stated fails on a root without \<^verbatim>\<open>usr/lib\<close>: the root below is
  well formed and holds \<^verbatim>\<open>usr/src\<close> only, so the list the design describes is
  \<^verbatim>\<open>usr/src\<close> alone, but the code lists \<^verbatim>\<open>usr/lib\<close> without a guard (line 115)
  and raises \<^verbatim>\<open>FileNotFoundError\<close>: no preservation set is produced.
\<close>

theorem preservation_set_without_usr_lib_counterexample:
  "wf_node src_only_root \<and>
   preservation_set_spec src_only_root = [''usr/src''] \<and>
   resolve_preservation_set src_only_root = Inl (FileNotFoundError ''usr/lib'')"
  by (simp add: src_only_root_def valid_name_def preservation_set_spec_def
        resolve_preservation_set_def path_exists_def split_path_def listdir_def)

section \<open>Rules for statements\<close>

lemma hoareI:
  "(\<And>w e w'. P w \<Longrightarrow> m w = (Inl e, w') \<Longrightarrow> E e w') \<Longrightarrow>
   (\<And>w x w'. P w \<Longrightarrow> m w = (Inr x, w') \<Longrightarrow> Q x w') \<Longrightarrow> hoare P m Q E"
  unfolding hoare_def by (simp split: sum.splits)

lemma hoareD_Inr: "hoare P m Q E \<Longrightarrow> P w \<Longrightarrow> m w = (Inr x, w') \<Longrightarrow> Q x w'"
  unfolding hoare_def by fastforce

lemma hoareD_Inl: "hoare P m Q E \<Longrightarrow> P w \<Longrightarrow> m w = (Inl e, w') \<Longrightarrow> E e w'"
  unfolding hoare_def by fastforce

lemma hoare_weaken:
  assumes h: "hoare P' m Q' E'" and p: "\<And>w. P w \<Longrightarrow> P' w" and q: "\<And>x w. Q' x w \<Longrightarrow> Q x w"
    and e: "\<And>e w. E' e w \<Longrightarrow> E e w"
  shows "hoare P m Q E"
proof (rule hoareI)
  fix w e0 w' assume "P w" and m: "m w = (Inl e0, w')"
  then have "P' w" by (simp add: p)
  with h have "E' e0 w'" using m by (rule hoareD_Inl)
  then show "E e0 w'" by (rule e)
next
  fix w x w' assume "P w" and m: "m w = (Inr x, w')"
  then have "P' w" by (simp add: p)
  with h have "Q' x w'" using m by (rule hoareD_Inr)
  then show "Q x w'" by (rule q)
qed

lemma hoare_ret: "(\<And>w. P w \<Longrightarrow> Q x w) \<Longrightarrow> hoare P (ret x) Q E"
  by (simp add: hoare_def ret_def)

lemma bind_prog_Inl:
  "bind_prog m f w = (Inl e, w') \<Longrightarrow>
     m w = (Inl e, w') \<or> (\<exists>x w1. m w = (Inr x, w1) \<and> f x w1 = (Inl e, w'))"
  by (auto simp: bind_prog_def split: prod.splits sum.splits)

lemma bind_prog_Inr:
  "bind_prog m f w = (Inr y, w') \<Longrightarrow> \<exists>x w1. m w = (Inr x, w1) \<and> f x w1 = (Inr y, w')"
  by (auto simp: bind_prog_def split: prod.splits sum.splits)

lemma hoare_bind:
  assumes "hoare P m R E" "\<And>x. hoare (R x) (f x) Q E"
  shows "hoare P (bind_prog m f) Q E"
proof (rule hoareI)
  fix w e w' assume P: "P w" and r: "bind_prog m f w = (Inl e, w')"
  from bind_prog_Inl [OF r] show "E e w'"
  proof
    assume "m w = (Inl e, w')"
    with assms(1) P show ?thesis by (rule hoareD_Inl)
  next
    assume "\<exists>x w1. m w = (Inr x, w1) \<and> f x w1 = (Inl e, w')"
    then obtain x w1 where 1: "m w = (Inr x, w1)" and 2: "f x w1 = (Inl e, w')" by blast
    have "R x w1" using assms(1) P 1 by (rule hoareD_Inr)
    with assms(2) show ?thesis using 2 by (rule hoareD_Inl)
  qed
next
  fix w y w' assume P: "P w" and r: "bind_prog m f w = (Inr y, w')"
  from bind_prog_Inr [OF r] obtain x w1 where 1: "m w = (Inr x, w1)"
    and 2: "f x w1 = (Inr y, w')" by blast
  have "R x w1" using assms(1) P 1 by (rule hoareD_Inr)
  with assms(2) show "Q y w'" using 2 by (rule hoareD_Inr)
qed

lemma hoare_seq:
  "hoare P m (\<lambda>u. R) E \<Longrightarrow> hoare R n Q E \<Longrightarrow> hoare P (seq_prog m n) Q E"
  unfolding seq_prog_def using hoare_bind [of P m "\<lambda>u. R" E "\<lambda>u. n" Q] by simp

lemma try_finally_Inl:
  "try_finally body fin w = (Inl e, w') \<Longrightarrow>
     (\<exists>r w1. body w = (r, w1) \<and> fin w1 = (Inl e, w')) \<or>
     (\<exists>w1. body w = (Inl e, w1) \<and> fin w1 = (Inr (), w'))"
  by (auto simp: try_finally_def split: prod.splits sum.splits)

lemma try_finally_Inr:
  "try_finally body fin w = (Inr x, w') \<Longrightarrow>
     \<exists>w1. body w = (Inr x, w1) \<and> fin w1 = (Inr (), w')"
  by (auto simp: try_finally_def split: prod.splits sum.splits)

lemma hoare_try_finally:
  assumes "hoare P body R F" "\<And>x. hoare (R x) fin (\<lambda>u. Q x) E"
    "\<And>e. hoare (F e) fin (\<lambda>u. E e) E"
  shows "hoare P (try_finally body fin) Q E"
proof (rule hoareI)
  fix w e w' assume P: "P w" and r: "try_finally body fin w = (Inl e, w')"
  from try_finally_Inl [OF r] show "E e w'"
  proof
    assume "\<exists>r w1. body w = (r, w1) \<and> fin w1 = (Inl e, w')"
    then obtain r w1 where 1: "body w = (r, w1)" and 2: "fin w1 = (Inl e, w')" by blast
    show ?thesis
    proof (cases r)
      case (Inl e0)
      with 1 have 3: "body w = (Inl e0, w1)" by simp
      have "F e0 w1" using assms(1) P 3 by (rule hoareD_Inl)
      with assms(3) show ?thesis using 2 by (rule hoareD_Inl)
    next
      case (Inr x)
      with 1 have 3: "body w = (Inr x, w1)" by simp
      have "R x w1" using assms(1) P 3 by (rule hoareD_Inr)
      with assms(2) show ?thesis using 2 by (rule hoareD_Inl)
    qed
  next
    assume "\<exists>w1. body w = (Inl e, w1) \<and> fin w1 = (Inr (), w')"
    then obtain w1 where 1: "body w = (Inl e, w1)" and 2: "fin w1 = (Inr (), w')" by blast
    have "F e w1" using assms(1) P 1 by (rule hoareD_Inl)
    with assms(3) show ?thesis using 2 by (rule hoareD_Inr)
  qed
next
  fix w x w' assume P: "P w" and r: "try_finally body fin w = (Inr x, w')"
  from try_finally_Inr [OF r] obtain w1 where 1: "body w = (Inr x, w1)"
    and 2: "fin w1 = (Inr (), w')" by blast
  have "R x w1" using assms(1) P 1 by (rule hoareD_Inr)
  with assms(2) show "Q x w'" using 2 by (rule hoareD_Inr)
qed

lemma hoare_for_each:
  assumes "\<And>x. x \<in> set xs \<Longrightarrow> hoare I (body x) (\<lambda>u. I) E"
  shows "hoare I (for_each xs body) (\<lambda>u. I) E"
  using assms
proof (induction xs)
  case Nil
  show ?case unfolding for_each.simps by (rule hoare_ret)
next
  case (Cons x xs)
  have 1: "hoare I (body x) (\<lambda>u. I) E" using Cons.prems by simp
  have 2: "hoare I (for_each xs body) (\<lambda>u. I) E"
    by (rule Cons.IH) (simp add: Cons.prems)
  show ?case unfolding for_each.simps using hoare_seq [of I "body x" I E "for_each xs body" "\<lambda>u. I"] 1 2 by simp
qed

lemma hoare_run_status:
  "(\<And>w. P w \<Longrightarrow> s = 0 \<Longrightarrow> Q () (effect (w\<lparr>trace := trace w @ [(c, s)]\<rparr>))) \<Longrightarrow>
   (\<And>w. P w \<Longrightarrow> s \<noteq> 0 \<Longrightarrow> E (CalledProcessError s c) (w\<lparr>trace := trace w @ [(c, s)]\<rparr>)) \<Longrightarrow>
   hoare P (run_status s c effect) Q E"
  by (auto simp: hoare_def run_status_def Let_def)

lemma hoare_run:
  "(\<And>w. P w \<Longrightarrow> status env c = 0 \<Longrightarrow>
       Q () (effect (w\<lparr>trace := trace w @ [(c, 0)]\<rparr>))) \<Longrightarrow>
   (\<And>w. P w \<Longrightarrow> status env c \<noteq> 0 \<Longrightarrow>
       E (CalledProcessError (status env c) c) (w\<lparr>trace := trace w @ [(c, status env c)]\<rparr>)) \<Longrightarrow>
   hoare P (run env c effect) Q E"
  by (auto simp: hoare_def run_def run_status_def Let_def)

lemma hoare_os_call:
  "(\<And>w. P w \<Longrightarrow> \<not> os_fails env c \<Longrightarrow> Q () (effect w)) \<Longrightarrow>
   (\<And>w. P w \<Longrightarrow> os_fails env c \<Longrightarrow> E (OSError c) w) \<Longrightarrow>
   hoare P (os_call env c effect) Q E"
  by (auto simp: hoare_def os_call_def)

lemma hoare_umount:
  "(\<And>w. P w \<Longrightarrow> is_mounted w target \<Longrightarrow> status env (Umount target) = 0 \<Longrightarrow>
       Q () (w\<lparr>trace := trace w @ [(Umount target, 0)],
               mounted := unmount_top target (mounted w)\<rparr>)) \<Longrightarrow>
   (\<And>w s. P w \<Longrightarrow> s \<noteq> 0 \<Longrightarrow>
       E (CalledProcessError s (Umount target)) (w\<lparr>trace := trace w @ [(Umount target, s)]\<rparr>)) \<Longrightarrow>
   hoare P (umount env target) Q E"
  by (auto simp: hoare_def umount_def run_status_def Let_def split: if_splits)

lemma hoare_if_state:
  "hoare (\<lambda>w. P w \<and> b w) m1 Q E \<Longrightarrow> hoare (\<lambda>w. P w \<and> \<not> b w) m2 Q E \<Longrightarrow>
   hoare P (\<lambda>w. (if b w then m1 else m2) w) Q E"
  by (auto simp: hoare_def split: if_splits)

lemma hoare_read:
  "hoare P (\<lambda>w. (f w, w)) (\<lambda>x w. P w \<and> f w = Inr x) (\<lambda>e w. P w \<and> f w = Inl e)"
  by (auto simp: hoare_def split: sum.splits)

section \<open>Invariants, aborts and the archive step\<close>

lemma keeps_ret: "keeps I (ret x)"
  unfolding keeps_def by (rule hoare_ret)

lemma keeps_bind: "keeps I m \<Longrightarrow> (\<And>x. keeps I (f x)) \<Longrightarrow> keeps I (bind_prog m f)"
  unfolding keeps_def using hoare_bind [of I m "\<lambda>u. I" "\<lambda>e. I" f "\<lambda>u. I"] by simp

lemma keeps_seq: "keeps I m \<Longrightarrow> keeps I n \<Longrightarrow> keeps I (seq_prog m n)"
  unfolding seq_prog_def by (rule keeps_bind)

lemma keeps_try_finally: "keeps I body \<Longrightarrow> keeps I fin \<Longrightarrow> keeps I (try_finally body fin)"
  unfolding keeps_def
  using hoare_try_finally [of I body "\<lambda>u. I" "\<lambda>e. I" fin "\<lambda>u. I" "\<lambda>e. I"] by simp

lemma keeps_for_each: "(\<And>x. x \<in> set xs \<Longrightarrow> keeps I (body x)) \<Longrightarrow> keeps I (for_each xs body)"
  unfolding keeps_def using hoare_for_each [of xs I body "\<lambda>e. I"] by simp

lemma keeps_run:
  "(\<And>w t. I w \<Longrightarrow> I (w\<lparr>trace := t\<rparr>)) \<Longrightarrow> (\<And>w. I w \<Longrightarrow> I (effect w)) \<Longrightarrow>
   keeps I (run env c effect)"
  unfolding keeps_def by (rule hoare_run) simp_all

lemma keeps_os_call: "(\<And>w. I w \<Longrightarrow> I (effect w)) \<Longrightarrow> keeps I (os_call env c effect)"
  unfolding keeps_def by (rule hoare_os_call) simp_all

lemma keeps_umount:
  "(\<And>w t. I w \<Longrightarrow> I (w\<lparr>trace := t\<rparr>)) \<Longrightarrow> (\<And>w ms. I w \<Longrightarrow> I (w\<lparr>mounted := ms\<rparr>)) \<Longrightarrow>
   keeps I (umount env target)"
  unfolding keeps_def by (rule hoare_umount) simp_all

lemma keeps_if_state:
  "keeps I m1 \<Longrightarrow> keeps I m2 \<Longrightarrow> keeps I (\<lambda>w. (if b w then m1 else m2) w)"
  unfolding keeps_def by (rule hoare_if_state) (erule hoare_weaken; simp)+

lemma keeps_read: "keeps I (\<lambda>w. (f w, w))"
  unfolding keeps_def by (rule hoare_weaken [OF hoare_read [of I f]]) simp_all

lemma keepsD: "keeps I m \<Longrightarrow> I w \<Longrightarrow> I (snd (m w))"
  unfolding keeps_def hoare_def by (cases "m w") (auto split: sum.splits)

lemmas keeps_intros =
  keeps_ret keeps_bind keeps_seq keeps_try_finally keeps_for_each keeps_run keeps_os_call
  keeps_umount keeps_if_state keeps_read

lemma keeps_root_provisioning:
  "keeps (\<lambda>w. image_root w = R) (provisioning_session env azurelinux)"
  unfolding provisioning_session_def session_setup_def session_commands_def
    session_release_def bind_pseudo_filesystems_def chroot_run_def Let_def
  by (intro keeps_intros) simp_all


lemma hoare_any: "hoare P m (\<lambda>x w. True) (\<lambda>e w. True)"
  by (simp add: hoare_def split: sum.splits)

lemma hoare_false: "hoare (\<lambda>w. False) m Q E"
  by (simp add: hoare_def)

lemma keeps_hoare: "keeps I m \<Longrightarrow> hoare I m (\<lambda>u. I) (\<lambda>e w. True)"
  unfolding keeps_def by (erule hoare_weaken) simp_all

lemma resolve_no_usr_lib:
  "\<not> path_isdir root ''usr/lib'' \<Longrightarrow>
     resolve_preservation_set root = Inl (FileNotFoundError ''usr/lib'') \<or>
     resolve_preservation_set root = Inl (NotADirectoryError ''usr/lib'')"
  by (auto simp: resolve_preservation_set_def listdir_def path_isdir_def Let_def
        split: option.splits node.splits)

lemma resolve_Inr_usr_lib:
  "resolve_preservation_set root = Inr ps \<Longrightarrow> path_isdir root ''usr/lib''"
  using resolve_no_usr_lib [of root] by auto

lemma replace_root_resolve_fails:
  "resolve_preservation_set (image_root w) = Inl e \<Longrightarrow>
     replace_root env azurelinux root_mount w = (Inl e, w)"
  by (simp add: replace_root_def bind_prog_def)

lemma keeps_root_mount_partitions:
  "keeps (\<lambda>w. image_root w = R) (mount_partitions env d b r)"
  unfolding mount_partitions_def by (intro keeps_intros) simp_all

lemma keeps_root_mkdtemp: "keeps (\<lambda>w. image_root w = R) (mkdtemp env pre)"
  unfolding mkdtemp_def Let_def by (intro keeps_intros) simp_all

lemma keeps_root_losetup:
  "keeps (\<lambda>w. image_root w = R)
     (check_output env c out (\<lambda>w. w\<lparr>loops := loops w @ [d]\<rparr>))"
  unfolding check_output_def by (intro keeps_intros) simp_all

lemma keeps_root_fsck: "keeps (\<lambda>w. image_root w = R) (run env c (\<lambda>w. w))"
  by (intro keeps_intros) simp_all

lemma keeps_root_release:
  "keeps (\<lambda>w. J (image_root w)) (release env d b r)"
  unfolding release_def by (intro keeps_intros) simp_all

lemma mkdtemp_root:
  "hoare (\<lambda>w. image_root w = R) (mkdtemp env pre)
     (\<lambda>x w. image_root w = R \<and> x = tempdir env @ ''/'' @ pre @ mkdtemp_suffix env pre)
     (\<lambda>e w. image_root w = R)"
  by (rule hoareI)
     (auto simp: mkdtemp_def bind_prog_def os_call_def ret_def Let_def split: if_splits)

lemma hoare_pre_eq: "(\<And>w. P w \<Longrightarrow> x = y) \<Longrightarrow> hoare P (f y) Q E \<Longrightarrow> hoare (\<lambda>w. P w) (f x) Q E"
  by (auto simp: hoare_def)

lemma mount_and_replace_abort_gen:
  assumes rr: "hoare (\<lambda>w. image_root w = R)
      (replace_root env azurelinux (tempdir env @ ''/'' @ ''mnt_root_'' @ mkdtemp_suffix env ''mnt_root_''))
      (\<lambda>u w. False) (\<lambda>e w. J (image_root w))"
    and J: "J R"
  shows "hoare (\<lambda>w. image_root w = R) (mount_and_replace env raspbian azurelinux)
           (\<lambda>u w. False) (\<lambda>e w. J (image_root w))"
proof -
  let ?I = "\<lambda>w. image_root w = R"
  let ?E = "\<lambda>e w. J (image_root w)"
  let ?rm = "tempdir env @ ''/'' @ ''mnt_root_'' @ mkdtemp_suffix env ''mnt_root_''"
  have kh: "keeps ?I m \<Longrightarrow> hoare ?I m (\<lambda>u. ?I) ?E" for m :: "'a prog"
    unfolding keeps_def by (erule hoare_weaken) (simp_all add: J)
  have body: "hoare ?I (seq_prog (mount_partitions env d b ?rm) (replace_root env azurelinux ?rm))
                (\<lambda>u w. False) ?E" for d b
    by (rule hoare_seq [OF kh [OF keeps_root_mount_partitions] rr])
  have fin: "hoare (\<lambda>w. J (image_root w)) (release env d b ?rm) (\<lambda>u. ?E e) ?E" for d b e
    using keeps_root_release [of J env d b ?rm] unfolding keeps_def .
  have tf: "hoare ?I (try_finally (seq_prog (mount_partitions env d b ?rm) (replace_root env azurelinux ?rm))
                (release env d b ?rm)) (\<lambda>u w. False) ?E" for d b
    by (rule hoare_try_finally [OF body hoare_false fin])
  have tf': "hoare (\<lambda>w. image_root w = R \<and> rm = ?rm)
               (try_finally (seq_prog (mount_partitions env d b rm) (replace_root env azurelinux rm))
                (release env d b rm)) (\<lambda>u w. False) ?E" for d b rm
    using tf [of d b] by (auto simp: hoare_def)
  have t2: "hoare ?I (bind_prog (mkdtemp env ''mnt_root_'') (\<lambda>rm.
               try_finally (seq_prog (mount_partitions env d b rm) (replace_root env azurelinux rm))
                (release env d b rm))) (\<lambda>u w. False) ?E" for d b
  proof (rule hoare_bind [where R = "\<lambda>x w. image_root w = R \<and> x = ?rm"])
    show "hoare ?I (mkdtemp env ''mnt_root_'') (\<lambda>x w. image_root w = R \<and> x = ?rm) ?E"
      by (rule hoare_weaken [OF mkdtemp_root [of R env "''mnt_root_''"]]) (simp_all add: J)
  qed (rule tf')
  have t1: "hoare ?I (bind_prog (mkdtemp env ''mnt_boot_'') (\<lambda>b.
               bind_prog (mkdtemp env ''mnt_root_'') (\<lambda>rm.
               try_finally (seq_prog (mount_partitions env d b rm) (replace_root env azurelinux rm))
                (release env d b rm)))) (\<lambda>u w. False) ?E" for d
    by (rule hoare_bind [OF kh [OF keeps_root_mkdtemp]]) (rule t2)
  show ?thesis
    unfolding mount_and_replace_def Let_def
    by (rule hoare_bind [OF kh [OF keeps_root_losetup]])
       (rule hoare_seq [OF kh [OF keeps_root_fsck]],
        rule hoare_seq [OF kh [OF keeps_root_fsck]], rule t1)
qed

lemma combine_images_abort_gen:
  assumes rr: "hoare (\<lambda>v. image_root v = image_root w)
      (replace_root env azurelinux (tempdir env @ ''/'' @ ''mnt_root_'' @ mkdtemp_suffix env ''mnt_root_''))
      (\<lambda>u w. False) (\<lambda>e w. J (image_root w))"
    and J: "J (image_root w)"
  shows "\<exists>e w'. combine_images env raspbian azurelinux w = (Inl e, w') \<and> J (image_root w')"
proof -
  let ?I = "\<lambda>v. image_root v = image_root w"
  have p: "hoare ?I (provisioning_session env azurelinux) (\<lambda>u. ?I) (\<lambda>e w. J (image_root w))"
    using keeps_root_provisioning [of "image_root w" env azurelinux] unfolding keeps_def
    by (rule hoare_weaken) (simp_all add: J)
  have h: "hoare ?I (combine_images env raspbian azurelinux)
             (\<lambda>u w. False) (\<lambda>e w. J (image_root w))"
    unfolding combine_images_def
    by (rule hoare_seq [OF p mount_and_replace_abort_gen [OF rr J]])
  obtain r w' where r: "combine_images env raspbian azurelinux w = (r, w')"
    by (cases "combine_images env raspbian azurelinux w")
  show ?thesis
  proof (cases r)
    case (Inl e)
    with r have c: "combine_images env raspbian azurelinux w = (Inl e, w')" by simp
    have "J (image_root w')" using hoareD_Inl [OF h _ c] by simp
    with c show ?thesis by blast
  next
    case (Inr x)
    with r have c: "combine_images env raspbian azurelinux w = (Inr x, w')" by simp
    have False using hoareD_Inr [OF h _ c] by simp
    then show ?thesis ..
  qed
qed

lemma combine_images_aborts:
  assumes "\<not> path_isdir (image_root w) ''usr/lib''"
  shows "\<exists>e w'. combine_images env raspbian azurelinux w = (Inl e, w')"
proof -
  have rr: "hoare (\<lambda>v. image_root v = image_root w) (replace_root env azurelinux rm)
              (\<lambda>u w. False) (\<lambda>e w. True)" for rm
  proof (rule hoareI)
    fix v x w' assume "image_root v = image_root w"
      and r: "replace_root env azurelinux rm v = (Inr x, w')"
    then have "\<not> path_isdir (image_root v) ''usr/lib''" using assms by simp
    from resolve_no_usr_lib [OF this] r show False
      by (auto simp: replace_root_resolve_fails)
  qed simp
  from combine_images_abort_gen [of w env azurelinux "\<lambda>n. True", OF rr] show ?thesis by blast
qed

lemma fst_set_update_entry: "fst ` set (update_entry k v es) = insert k (fst ` set es)"
  by (induction es) auto

lemma top_entries_Dir: "top_entries (Dir es) = map fst es"
  by (simp add: top_entries_def listdir_def split_path_def)

lemma top_entries_put_path:
  "set (top_entries t) \<subseteq> set (top_entries (put_path [k] n t))"
proof (cases t)
  case (Dir es)
  then show ?thesis by (auto simp: top_entries_Dir fst_set_update_entry)
qed (simp_all add: top_entries_def listdir_def split_path_def)

text \<open>
  Claim C9. When \<^verbatim>\<open>usr/lib\<close> is not a directory of the mounted root, resolving the
  preservation set does not return a set, empty or not: listing \<^verbatim>\<open>usr/lib\<close> raises
  (nothing there, or not a directory), the replacement stops there without running a
  command, and the pipeline call ends with an error. So a preservation set is only
  produced when \<^verbatim>\<open>usr/lib\<close> exists.
\<close>

theorem missing_usr_lib_aborts:
  assumes "\<not> path_isdir (image_root w) ''usr/lib''"
  shows "(resolve_preservation_set (image_root w) = Inl (FileNotFoundError ''usr/lib'') \<or>
          resolve_preservation_set (image_root w) = Inl (NotADirectoryError ''usr/lib'')) \<and>
         (\<exists>e. replace_root env azurelinux root_mount w = (Inl e, w)) \<and>
         (\<exists>e w'. combine_images env raspbian azurelinux w = (Inl e, w'))"
proof -
  have 1: "resolve_preservation_set (image_root w) = Inl (FileNotFoundError ''usr/lib'') \<or>
          resolve_preservation_set (image_root w) = Inl (NotADirectoryError ''usr/lib'')"
    using assms by (rule resolve_no_usr_lib)
  then have 2: "\<exists>e. replace_root env azurelinux root_mount w = (Inl e, w)"
    using replace_root_resolve_fails by blast
  show ?thesis using 1 2 combine_images_aborts [OF assms] by blast
qed

theorem missing_usr_lib_aborts_witness:
  "\<not> path_isdir bare_root ''usr/lib'' \<and>
   resolve_preservation_set bare_root = Inl (FileNotFoundError ''usr/lib'') \<and>
   (\<exists>e w'. combine_images example_env ''raspios.img'' ''azurelinux_extracted''
               (example_world\<lparr>image_root := bare_root\<rparr>) = (Inl e, w'))"
proof -
  have h: "\<not> path_isdir (image_root (example_world\<lparr>image_root := bare_root\<rparr>)) ''usr/lib''"
    by (simp add: bare_root_def path_isdir_def split_path_def)
  have r: "resolve_preservation_set bare_root = Inl (FileNotFoundError ''usr/lib'')"
    by (simp add: resolve_preservation_set_def bare_root_def listdir_def split_path_def
          path_exists_def)
  show ?thesis
    using missing_usr_lib_aborts [OF h, of example_env "''azurelinux_extracted''" "[]"
        "''raspios.img''"] h r
    by simp
qed

lemma donor_root_resolve:
  "resolve_preservation_set donor_root = Inr [''usr/lib/modules'', ''usr/lib/raspi-config'']"
  by (simp add: resolve_preservation_set_def donor_root_def path_exists_def split_path_def
        listdir_def startswith_def)

section \<open>Runs on the example inputs\<close>

lemmas prog_defs =
  ret_def bind_prog_def seq_prog_def try_finally_def run_def run_status_def umount_def
  is_mounted_def unmount_top_def os_call_def mkdtemp_def check_output_def Let_def

lemmas session_defs =
  provisioning_session_def session_setup_def session_commands_def session_release_def
  bind_pseudo_filesystems_def chroot_run_def

lemmas image_defs =
  mount_and_replace_def mount_partitions_def replace_root_def archive_preservation_set_def
  wipe_root_def copy_tree_def restore_preserved_def release_def

lemmas tree_defs =
  path_join_def strip_def is_space_def ensure_dir_def split_path_def listdir_def
  path_isdir_def path_exists_def remove_entry_def cp_into_def extract_archive_def
  archive_members_def startswith_def resolve_preservation_set_def

text \<open>
  Claim C1, evaluated where the code leaves the claim. First run: \<^verbatim>\<open>dosfsck\<close> exits
  with status 1 after the loop device was attached; the call raises at line 80, before
  the \<^verbatim>\<open>try\<close> of line 87, and the loop device is still attached when it returns.
  Second run: the \<^verbatim>\<open>mount\<close> of the boot partition fails; the \<^verbatim>\<open>finally\<close> starts
  with \<^verbatim>\<open>umount boot_mount\<close>, which fails on a directory where nothing is mounted,
  so the loop device stays attached and both temporary directories stay.
\<close>

theorem release_skipped_after_check_or_mount_failure:
  "(case combine_images fsck_fails_env ''raspios.img'' ''azurelinux_extracted'' example_world of
      (r, w') \<Rightarrow>
        r = Inl (CalledProcessError 1 (Dosfsck ''/dev/loop0p1'')) \<and>
        loops w' = [''/dev/loop0'']) \<and>
   (case combine_images mount_fails_env ''raspios.img'' ''azurelinux_extracted'' example_world of
      (r, w') \<Rightarrow>
        r = Inl (CalledProcessError 32 (Umount ''/tmp/mnt_boot_k3x9wq_a'')) \<and>
        loops w' = [''/dev/loop0''] \<and>
        tmpdirs w' = [''/tmp/mnt_boot_k3x9wq_a'', ''/tmp/mnt_root_k3x9wq_a''])"
  by (simp add: combine_images_def image_defs session_defs prog_defs tree_defs
        fsck_fails_env_def mount_fails_env_def example_env_def example_world_def)



section \<open>The provisioning session\<close>


lemma keeps_run_app:
  "(\<And>w s. I w \<Longrightarrow> I (w\<lparr>trace := trace w @ [(c, s)]\<rparr>)) \<Longrightarrow> (\<And>w. I w \<Longrightarrow> I (effect w)) \<Longrightarrow>
   keeps I (run env c effect)"
  unfolding keeps_def by (rule hoare_run) simp_all

lemma keeps_umount_app:
  "(\<And>w s. I w \<Longrightarrow> I (w\<lparr>trace := trace w @ [(Umount target, s)]\<rparr>)) \<Longrightarrow>
   (\<And>w ms. I w \<Longrightarrow> I (w\<lparr>mounted := ms\<rparr>)) \<Longrightarrow>
   keeps I (umount env target)"
  unfolding keeps_def
proof (rule hoare_umount)
  fix w assume a: "\<And>w s. I w \<Longrightarrow> I (w\<lparr>trace := trace w @ [(Umount target, s)]\<rparr>)"
    "\<And>w ms. I w \<Longrightarrow> I (w\<lparr>mounted := ms\<rparr>)" "I w"
  have "I (w\<lparr>trace := trace w @ [(Umount target, 0)]\<rparr>)" using a(1,3) by simp
  from a(2) [OF this, of "unmount_top target (mounted w)"]
  show "I (w\<lparr>trace := trace w @ [(Umount target, 0)],
            mounted := unmount_top target (mounted w)\<rparr>)" by simp
qed simp

lemmas keeps_app_intros =
  keeps_ret keeps_bind keeps_seq keeps_try_finally keeps_for_each keeps_run_app keeps_os_call
  keeps_umount_app keeps_if_state keeps_read






lemma try_finally_snd:
  "snd (try_finally body fin w) = snd (fin (snd (body w)))"
  by (simp add: try_finally_def split: prod.splits sum.splits)


lemma try_finally_fin_ok:
  "fin (snd (body w)) = (Inr (), w') \<Longrightarrow> try_finally body fin w = (fst (body w), w')"
  by (cases "body w") (simp add: try_finally_def)






section \<open>Release of the provisioning session after a failure\<close>

lemma unmount_top_snoc_eq [simp]: "unmount_top t (ms @ [(s, t)]) = ms"
  by (simp add: unmount_top_def)

lemma unmount_top_snoc_neq [simp]:
  "t' \<noteq> t \<Longrightarrow> unmount_top t (ms @ [(s, t')]) = unmount_top t ms @ [(s, t')]"
  by (simp add: unmount_top_def)

lemma unmount_top_snoc2 [simp]:
  "t' \<noteq> t \<Longrightarrow> unmount_top t (ms @ [(s, t), (s', t')]) = ms @ [(s', t')]"
  using unmount_top_snoc_neq [of t' t "ms @ [(s, t)]" s'] by simp

lemma unmount_top_snoc3 [simp]:
  "t' \<noteq> t \<Longrightarrow> t'' \<noteq> t \<Longrightarrow>
     unmount_top t (ms @ [(s, t), (s', t'), (s'', t'')]) = ms @ [(s', t'), (s'', t'')]"
  using unmount_top_snoc_neq [of t'' t "ms @ [(s, t), (s', t')]" s''] by simp











section \<open>The image stage, case by case\<close>

lemma keeps_if: "keeps I a \<Longrightarrow> keeps I b \<Longrightarrow> keeps I (if c then a else b)"
  by simp

lemma keeps_wipe_root:
  assumes tr: "\<And>w p s. I w \<Longrightarrow> I (w\<lparr>trace := trace w @ [(RmRF p, s)]\<rparr>)"
              "\<And>w p s. I w \<Longrightarrow> I (w\<lparr>trace := trace w @ [(RmF p, s)]\<rparr>)"
    and ro: "\<And>w r. I w \<Longrightarrow> I (w\<lparr>image_root := r\<rparr>)"
  shows "keeps I (wipe_root env root_mount)"
  unfolding wipe_root_def Let_def
  by (intro keeps_app_intros keeps_if) (simp_all add: tr ro)

lemma keeps_copy_tree:
  assumes tr: "\<And>w p q s. I w \<Longrightarrow> I (w\<lparr>trace := trace w @ [(CpA p q, s)]\<rparr>)"
              "\<And>w p q s. I w \<Longrightarrow> I (w\<lparr>trace := trace w @ [(Cp p q, s)]\<rparr>)"
    and ro: "\<And>w r. I w \<Longrightarrow> I (w\<lparr>image_root := r\<rparr>)"
  shows "keeps I (copy_tree env azurelinux root_mount)"
  unfolding copy_tree_def Let_def
  by (intro keeps_app_intros keeps_if) (simp_all add: tr ro)

lemma seq_prog_ret_after:
  assumes k: "keeps I m" and i: "I w" and n: "\<And>v. I v \<Longrightarrow> n v = (Inr (), v)"
  shows "seq_prog m n w = m w"
proof (cases "m w")
  case (Pair r v)
  have "I v" using keepsD [OF k i] Pair by simp
  then show ?thesis using Pair n by (cases r) (simp_all add: seq_prog_def bind_prog_def)
qed

lemma seq_prog_assoc: "seq_prog a (seq_prog b c) = seq_prog (seq_prog a b) c"
  by (rule ext) (simp add: seq_prog_def bind_prog_def split: prod.splits sum.splits)

lemma keeps_replace_root:
  assumes tr: "\<And>w c s. replace_cmd c \<Longrightarrow> I w \<Longrightarrow> I (w\<lparr>trace := trace w @ [(c, s)]\<rparr>)"
    and ro: "\<And>w r. I w \<Longrightarrow> I (w\<lparr>image_root := r\<rparr>)"
    and sg: "\<And>w a. I w \<Longrightarrow> I (w\<lparr>staging := a\<rparr>)"
  shows "keeps I (replace_root env azurelinux root_mount)"
proof -
  have a: "keeps I (archive_preservation_set env root_mount dirs)" for dirs
    unfolding archive_preservation_set_def Let_def
    by (intro keeps_app_intros keeps_if) (simp_all add: tr ro sg replace_cmd_def)
  have w: "keeps I (wipe_root env root_mount)"
    by (rule keeps_wipe_root) (simp_all add: tr ro replace_cmd_def)
  have c: "keeps I (copy_tree env azurelinux root_mount)"
    by (rule keeps_copy_tree) (simp_all add: tr ro replace_cmd_def)
  have r: "keeps I (restore_preserved env root_mount)"
    unfolding restore_preserved_def Let_def
    by (intro keeps_app_intros) (simp_all add: tr ro sg replace_cmd_def)
  show ?thesis
    unfolding replace_root_def
    by (intro keeps_bind keeps_seq keeps_read a w c r)
qed

lemma mount_and_replace_cases:
  "mount_and_replace env raspbian azurelinux w =
     (let dev = strip (losetup_stdout env);
          boot = tempdir env @ ''/'' @ ''mnt_boot_'' @ mkdtemp_suffix env ''mnt_boot_'';
          root = tempdir env @ ''/'' @ ''mnt_root_'' @ mkdtemp_suffix env ''mnt_root_'';
          lo = LosetupFindShow raspbian; f1 = Dosfsck (dev @ ''p1''); f2 = FsckExt4 (dev @ ''p2'');
          w1 = w\<lparr>trace := trace w @ [(lo, 0)], loops := loops w @ [dev]\<rparr>
      in if status env lo \<noteq> 0
         then (Inl (CalledProcessError (status env lo) lo),
               w\<lparr>trace := trace w @ [(lo, status env lo)]\<rparr>)
         else if status env f1 \<noteq> 0
         then (Inl (CalledProcessError (status env f1) f1),
               w1\<lparr>trace := trace w @ [(lo, 0), (f1, status env f1)]\<rparr>)
         else if status env f2 \<noteq> 0
         then (Inl (CalledProcessError (status env f2) f2),
               w1\<lparr>trace := trace w @ [(lo, 0), (f1, 0), (f2, status env f2)]\<rparr>)
         else if os_fails env (Mkdtemp ''mnt_boot_'')
         then (Inl (OSError (Mkdtemp ''mnt_boot_'')),
               w1\<lparr>trace := trace w @ [(lo, 0), (f1, 0), (f2, 0)]\<rparr>)
         else if os_fails env (Mkdtemp ''mnt_root_'')
         then (Inl (OSError (Mkdtemp ''mnt_root_'')),
               w1\<lparr>trace := trace w @ [(lo, 0), (f1, 0), (f2, 0)],
                   tmpdirs := tmpdirs w @ [boot]\<rparr>)
         else try_finally
                (seq_prog (mount_partitions env dev boot root)
                          (replace_root env azurelinux root))
                (release env dev boot root)
                (w1\<lparr>trace := trace w @ [(lo, 0), (f1, 0), (f2, 0)],
                    tmpdirs := tmpdirs w @ [boot, root]\<rparr>))"
  by (simp add: mount_and_replace_def prog_defs)

lemma snd_seq_prog:
  "snd (seq_prog m n v) = (case fst (m v) of Inl e \<Rightarrow> snd (m v) | Inr u \<Rightarrow> snd (n (snd (m v))))"
  by (cases "m v") (simp add: seq_prog_def bind_prog_def split: sum.splits)

lemma keeps_seq_snd:
  assumes "\<And>v. P v \<Longrightarrow> I (snd (m v))" and "keeps I n" and "P v"
  shows "I (snd (seq_prog m n v))"
  using assms(1) [OF assms(3)] keepsD [OF assms(2), of "snd (m v)"]
  by (simp add: snd_seq_prog split: sum.splits)

lemma keeps_release:
  assumes tr: "\<And>w c s. I w \<Longrightarrow> I (w\<lparr>trace := trace w @ [(c, s)]\<rparr>)"
    and mo: "\<And>w a. I w \<Longrightarrow> I (w\<lparr>mounted := a\<rparr>)"
    and lo: "\<And>w a. I w \<Longrightarrow> I (w\<lparr>loops := a\<rparr>)"
    and tm: "\<And>w a. I w \<Longrightarrow> I (w\<lparr>tmpdirs := a\<rparr>)"
  shows "keeps I (release env d b r)"
  unfolding release_def
  by (intro keeps_app_intros) (simp_all add: tr mo lo tm)

lemma mount_attempted:
  "(Mount (d @ ''p1'') b, status env (Mount (d @ ''p1'') b)) \<in>
     set (trace (snd (try_finally
        (seq_prog (mount_partitions env d b r) (replace_root env azurelinux r))
        (release env d b r) v)))"
proof -
  let ?ev = "(Mount (d @ ''p1'') b, status env (Mount (d @ ''p1'') b))"
  let ?I = "\<lambda>v. ?ev \<in> set (trace v)"
  have mp: "?I (snd (mount_partitions env d b r v))" for v
    by (simp add: mount_partitions_def prog_defs)
  have kr: "keeps ?I (replace_root env azurelinux r)"
    by (rule keeps_replace_root) simp_all
  have body: "?I (snd (seq_prog (mount_partitions env d b r) (replace_root env azurelinux r) v))"
    by (rule keeps_seq_snd [where P = "\<lambda>v. True", OF mp kr]) simp
  have rel: "keeps ?I (release env d b r)"
    by (rule keeps_release) simp_all
  show ?thesis
    unfolding try_finally_snd by (rule keepsD [OF rel body])
qed

lemma combine_after_provisioning:
  "provisioning_session env azurelinux w = (Inr (), w1) \<Longrightarrow>
     combine_images env raspbian azurelinux w = mount_and_replace env raspbian azurelinux w1"
  by (simp add: combine_images_def seq_prog_def bind_prog_def)

lemma provisioning_keeps_root:
  "provisioning_session env azurelinux w = (r, w1) \<Longrightarrow> image_root w1 = image_root w"
  using keepsD [OF keeps_root_provisioning [of "image_root w" env azurelinux], of w] by simp

lemma mount_partitions_ok:
  assumes "status env (Mount (d @ ''p1'') b) = 0" "status env (Mount (d @ ''p2'') r) = 0"
  shows "mount_partitions env d b r v =
           (Inr (), v\<lparr>trace := trace v @ [(Mount (d @ ''p1'') b, 0), (Mount (d @ ''p2'') r, 0)],
                      mounted := mounted v @ [(d @ ''p1'', b), (d @ ''p2'', r)]\<rparr>)"
  using assms by (simp add: mount_partitions_def prog_defs)

lemma archive_failure_explicit:
  assumes res: "resolve_preservation_set (image_root v) = Inr dirs" and ne: "dirs \<noteq> []"
    and tar: "tar = TarCreate (path_join root_mount ''raspbian_preserve.tar'') dirs root_mount"
    and mv: "mv = Mv (path_join root_mount ''raspbian_preserve.tar'') ''/tmp/raspbian_preserve.tar''"
    and fail: "status env tar \<noteq> 0 \<or> status env mv \<noteq> 0"
  shows "replace_root env azurelinux root_mount v =
     (if status env tar \<noteq> 0
      then (Inl (CalledProcessError (status env tar) tar),
            v\<lparr>trace := trace v @ [(tar, status env tar)]\<rparr>)
      else (Inl (CalledProcessError (status env mv) mv),
            v\<lparr>trace := trace v @ [(tar, 0), (mv, status env mv)],
               image_root := put_path [''raspbian_preserve.tar'']
                  (Archive (archive_members (image_root v) dirs)) (image_root v)\<rparr>))"
proof (cases "status env tar = 0")
  case True
  with fail have "status env mv \<noteq> 0" by simp
  with True res ne show ?thesis
    unfolding tar mv
    by (simp add: replace_root_def bind_prog_def seq_prog_def archive_preservation_set_def
          run_def run_status_def Let_def)
next
  case False
  with res ne show ?thesis
    unfolding tar mv
    by (simp add: replace_root_def bind_prog_def seq_prog_def archive_preservation_set_def
          run_def run_status_def Let_def)
qed

lemma release_cases:
  assumes m: "mounted v = ms @ [(a, b), (c, r)]" and ne: "r \<noteq> b"
  shows "release env d b r v =
     (let ub = Umount b; ur = Umount r; ld = LosetupDetach d
      in if status env ub \<noteq> 0
         then (Inl (CalledProcessError (status env ub) ub),
               v\<lparr>trace := trace v @ [(ub, status env ub)]\<rparr>)
         else if status env ur \<noteq> 0
         then (Inl (CalledProcessError (status env ur) ur),
               v\<lparr>trace := trace v @ [(ub, 0), (ur, status env ur)],
                  mounted := ms @ [(c, r)]\<rparr>)
         else if status env ld \<noteq> 0
         then (Inl (CalledProcessError (status env ld) ld),
               v\<lparr>trace := trace v @ [(ub, 0), (ur, 0), (ld, status env ld)], mounted := ms\<rparr>)
         else if os_fails env (Rmtree b)
         then (Inl (OSError (Rmtree b)),
               v\<lparr>trace := trace v @ [(ub, 0), (ur, 0), (ld, 0)], mounted := ms,
                  loops := removeAll d (loops v)\<rparr>)
         else if os_fails env (Rmtree r)
         then (Inl (OSError (Rmtree r)),
               v\<lparr>trace := trace v @ [(ub, 0), (ur, 0), (ld, 0)], mounted := ms,
                  loops := removeAll d (loops v), tmpdirs := removeAll b (tmpdirs v)\<rparr>)
         else (Inr (),
               v\<lparr>trace := trace v @ [(ub, 0), (ur, 0), (ld, 0)], mounted := ms,
                  loops := removeAll d (loops v),
                  tmpdirs := removeAll r (removeAll b (tmpdirs v))\<rparr>))"
  using m ne
  by (simp add: release_def ret_def bind_prog_def seq_prog_def run_def run_status_def
        umount_def is_mounted_def os_call_def Let_def)

lemma mount_names_differ:
  "t @ ''/'' @ ''mnt_root_'' @ s2 \<noteq> t @ ''/'' @ ''mnt_boot_'' @ s1"
  by simp

lemma try_finally_body_fails:
  "body w = (Inl e, v) \<Longrightarrow>
     try_finally body fin w =
       (case fst (fin v) of Inl e2 \<Rightarrow> (Inl e2, snd (fin v)) | Inr u \<Rightarrow> (Inl e, snd (fin v)))"
  by (cases "fin v") (simp add: try_finally_def split: sum.splits)

lemma image_stage_archive_failure:
  assumes lo: "status env (LosetupFindShow raspbian) = 0"
    and f1: "status env (Dosfsck (dev @ ''p1'')) = 0"
    and f2: "status env (FsckExt4 (dev @ ''p2'')) = 0"
    and t1: "\<not> os_fails env (Mkdtemp ''mnt_boot_'')"
    and t2: "\<not> os_fails env (Mkdtemp ''mnt_root_'')"
    and m1: "status env (Mount (dev @ ''p1'') boot) = 0"
    and m2: "status env (Mount (dev @ ''p2'') root) = 0"
    and dev: "dev = strip (losetup_stdout env)"
    and boot: "boot = tempdir env @ ''/'' @ ''mnt_boot_'' @ mkdtemp_suffix env ''mnt_boot_''"
    and root: "root = tempdir env @ ''/'' @ ''mnt_root_'' @ mkdtemp_suffix env ''mnt_root_''"
    and res: "resolve_preservation_set (image_root w1) = Inr dirs" and ne: "dirs \<noteq> []"
    and tar: "tar = TarCreate (path_join root ''raspbian_preserve.tar'') dirs root"
    and mv: "mv = Mv (path_join root ''raspbian_preserve.tar'') ''/tmp/raspbian_preserve.tar''"
    and fail: "status env tar \<noteq> 0 \<or> status env mv \<noteq> 0"
    and v2: "v2 = w1\<lparr>trace := trace w1 @
                  [(LosetupFindShow raspbian, 0), (Dosfsck (dev @ ''p1''), 0),
                   (FsckExt4 (dev @ ''p2''), 0), (Mount (dev @ ''p1'') boot, 0),
                   (Mount (dev @ ''p2'') root, 0)] @
                  (if status env tar \<noteq> 0 then [(tar, status env tar)]
                   else [(tar, 0), (mv, status env mv)]),
                loops := loops w1 @ [dev], tmpdirs := tmpdirs w1 @ [boot, root],
                mounted := mounted w1 @ [(dev @ ''p1'', boot), (dev @ ''p2'', root)],
                image_root := (if status env tar \<noteq> 0 then image_root w1
                   else put_path [''raspbian_preserve.tar'']
                          (Archive (archive_members (image_root w1) dirs)) (image_root w1))\<rparr>"
    and c: "c = (if status env tar \<noteq> 0 then tar else mv)"
  shows "mount_and_replace env raspbian azurelinux w1 =
           (case fst (release env dev boot root v2) of
              Inl e2 \<Rightarrow> (Inl e2, snd (release env dev boot root v2))
            | Inr u \<Rightarrow> (Inl (CalledProcessError (status env c) c),
                        snd (release env dev boot root v2)))"
proof -
  let ?v0 = "w1\<lparr>trace := trace w1 @ [(LosetupFindShow raspbian, 0), (Dosfsck (dev @ ''p1''), 0),
                   (FsckExt4 (dev @ ''p2''), 0)],
                loops := loops w1 @ [dev], tmpdirs := tmpdirs w1 @ [boot, root]\<rparr>"
  let ?v1 = "?v0\<lparr>trace := trace ?v0 @ [(Mount (dev @ ''p1'') boot, 0), (Mount (dev @ ''p2'') root, 0)],
                mounted := mounted ?v0 @ [(dev @ ''p1'', boot), (dev @ ''p2'', root)]\<rparr>"
  have res1: "resolve_preservation_set (image_root ?v1) = Inr dirs" using res by simp
  have body: "seq_prog (mount_partitions env dev boot root) (replace_root env azurelinux root) ?v0
                = (Inl (CalledProcessError (status env c) c), v2)"
    using archive_failure_explicit [OF res1 ne tar mv fail, of azurelinux]
    by (simp add: seq_prog_def bind_prog_def mount_partitions_ok [OF m1 m2] v2 c)
  have "mount_and_replace env raspbian azurelinux w1 =
          try_finally (seq_prog (mount_partitions env dev boot root)
                         (replace_root env azurelinux root))
            (release env dev boot root)
            (w1\<lparr>loops := loops w1 @ [dev],
                trace := trace w1 @ [(LosetupFindShow raspbian, 0), (Dosfsck (dev @ ''p1''), 0),
                   (FsckExt4 (dev @ ''p2''), 0)],
                tmpdirs := tmpdirs w1 @ [boot, root]\<rparr>)"
    using lo f1 f2 t1 t2 dev boot root
    by (simp add: mount_and_replace_cases Let_def)
  moreover have "w1\<lparr>loops := loops w1 @ [dev],
                trace := trace w1 @ [(LosetupFindShow raspbian, 0), (Dosfsck (dev @ ''p1''), 0),
                   (FsckExt4 (dev @ ''p2''), 0)],
                tmpdirs := tmpdirs w1 @ [boot, root]\<rparr> = ?v0"
    by simp
  ultimately have "mount_and_replace env raspbian azurelinux w1 =
          try_finally (seq_prog (mount_partitions env dev boot root)
                         (replace_root env azurelinux root))
            (release env dev boot root) ?v0"
    by (simp only:)
  then show ?thesis
    by (simp only: try_finally_body_fails [of "seq_prog (mount_partitions env dev boot root)
        (replace_root env azurelinux root)" ?v0 _ _ "release env dev boot root", OF body])
qed

text \<open>
  Claim C7, amended. The preservation set \<open>dirs\<close> is not empty and \<^verbatim>\<open>tar cf\<close> or the
  \<^verbatim>\<open>mv\<close> to the staging path exits with a non-zero status; \<open>c\<close> is the one that
  failed. The replacement raises the error of \<open>c\<close> having started nothing but the
  archive commands. For a pipeline run that reaches the replacement (provisioning,
  \<^verbatim>\<open>losetup\<close>, both checks, both \<^verbatim>\<open>mkdtemp\<close> and both mounts succeed): the commands
  started after the provisioning session are exactly the attach, the two checks, the
  two mounts, the archive commands up to \<open>c\<close> and the release commands, so no command
  of the wipe is started; the mounted root is unchanged when \<^verbatim>\<open>tar\<close> failed and has
  gained the archive file only when \<^verbatim>\<open>mv\<close> failed, so every top-level entry is
  still there; the call ends with an error, which is the error of \<open>c\<close> when every
  release step succeeds and the error of the first failing release step
  (\<^verbatim>\<open>umount\<close> of boot, \<^verbatim>\<open>umount\<close> of root, \<^verbatim>\<open>losetup -d\<close>, \<^verbatim>\<open>rmtree\<close> of boot,
  \<^verbatim>\<open>rmtree\<close> of root) otherwise.
\<close>

theorem archive_failure_skips_wipe:
  assumes prov: "fst (provisioning_session env azurelinux w) = Inr ()"
    and w1: "w1 = snd (provisioning_session env azurelinux w)"
    and lo: "status env (LosetupFindShow raspbian) = 0"
    and f1: "status env (Dosfsck (dev @ ''p1'')) = 0"
    and f2: "status env (FsckExt4 (dev @ ''p2'')) = 0"
    and t1: "\<not> os_fails env (Mkdtemp ''mnt_boot_'')"
    and t2: "\<not> os_fails env (Mkdtemp ''mnt_root_'')"
    and m1: "status env (Mount (dev @ ''p1'') boot) = 0"
    and m2: "status env (Mount (dev @ ''p2'') root) = 0"
    and dev: "dev = strip (losetup_stdout env)"
    and boot: "boot = tempdir env @ ''/'' @ ''mnt_boot_'' @ mkdtemp_suffix env ''mnt_boot_''"
    and root: "root = tempdir env @ ''/'' @ ''mnt_root_'' @ mkdtemp_suffix env ''mnt_root_''"
    and res: "resolve_preservation_set (image_root w) = Inr dirs" and ne: "dirs \<noteq> []"
    and tar: "tar = TarCreate (path_join root ''raspbian_preserve.tar'') dirs root"
    and mv: "mv = Mv (path_join root ''raspbian_preserve.tar'') ''/tmp/raspbian_preserve.tar''"
    and fail: "status env tar \<noteq> 0 \<or> status env mv \<noteq> 0"
    and c: "c = (if status env tar \<noteq> 0 then tar else mv)"
    and ub: "ub = Umount boot" and ur: "ur = Umount root" and ld: "ld = LosetupDetach dev"
    and out: "out = combine_images env raspbian azurelinux w"
  shows "replace_root env azurelinux root w =
           (if status env tar \<noteq> 0
            then (Inl (CalledProcessError (status env tar) tar),
                  w\<lparr>trace := trace w @ [(tar, status env tar)]\<rparr>)
            else (Inl (CalledProcessError (status env mv) mv),
                  w\<lparr>trace := trace w @ [(tar, 0), (mv, status env mv)],
                     image_root := put_path [''raspbian_preserve.tar'']
                        (Archive (archive_members (image_root w) dirs)) (image_root w)\<rparr>)) \<and>
         fst out =
           (if status env ub \<noteq> 0 then Inl (CalledProcessError (status env ub) ub)
            else if status env ur \<noteq> 0 then Inl (CalledProcessError (status env ur) ur)
            else if status env ld \<noteq> 0 then Inl (CalledProcessError (status env ld) ld)
            else if os_fails env (Rmtree boot) then Inl (OSError (Rmtree boot))
            else if os_fails env (Rmtree root) then Inl (OSError (Rmtree root))
            else Inl (CalledProcessError (status env c) c)) \<and>
         map fst (drop (length (trace w1)) (trace (snd out))) =
           [LosetupFindShow raspbian, Dosfsck (dev @ ''p1''), FsckExt4 (dev @ ''p2''),
            Mount (dev @ ''p1'') boot, Mount (dev @ ''p2'') root] @
           (if status env tar \<noteq> 0 then [tar] else [tar, mv]) @
           (if status env ub \<noteq> 0 then [ub]
            else if status env ur \<noteq> 0 then [ub, ur] else [ub, ur, ld]) \<and>
         image_root (snd out) =
           (if status env tar \<noteq> 0 then image_root w
            else put_path [''raspbian_preserve.tar'']
                   (Archive (archive_members (image_root w) dirs)) (image_root w)) \<and>
         set (top_entries (image_root w)) \<subseteq> set (top_entries (image_root (snd out)))"
proof -
  let ?v2 = "w1\<lparr>trace := trace w1 @
                  [(LosetupFindShow raspbian, 0), (Dosfsck (dev @ ''p1''), 0),
                   (FsckExt4 (dev @ ''p2''), 0), (Mount (dev @ ''p1'') boot, 0),
                   (Mount (dev @ ''p2'') root, 0)] @
                  (if status env tar \<noteq> 0 then [(tar, status env tar)]
                   else [(tar, 0), (mv, status env mv)]),
                loops := loops w1 @ [dev], tmpdirs := tmpdirs w1 @ [boot, root],
                mounted := mounted w1 @ [(dev @ ''p1'', boot), (dev @ ''p2'', root)],
                image_root := (if status env tar \<noteq> 0 then image_root w1
                   else put_path [''raspbian_preserve.tar'']
                          (Archive (archive_members (image_root w1) dirs)) (image_root w1))\<rparr>"
  have p: "provisioning_session env azurelinux w = (Inr (), w1)"
    using prov w1 by (simp add: prod_eq_iff)
  have ir: "image_root w1 = image_root w" by (rule provisioning_keeps_root [OF p])
  have res1: "resolve_preservation_set (image_root w1) = Inr dirs" using res ir by simp
  have nm: "root \<noteq> boot" unfolding boot root by simp
  have m: "mounted ?v2 = mounted w1 @ [(dev @ ''p1'', boot), (dev @ ''p2'', root)]" by simp
  note rel = release_cases [OF m nm, of env dev]
  have o: "out = (case fst (release env dev boot root ?v2) of
              Inl e2 \<Rightarrow> (Inl e2, snd (release env dev boot root ?v2))
            | Inr u \<Rightarrow> (Inl (CalledProcessError (status env c) c),
                        snd (release env dev boot root ?v2)))"
    unfolding out combine_after_provisioning [OF p]
    by (rule image_stage_archive_failure [OF lo f1 f2 t1 t2 m1 m2 dev boot root res1 ne tar mv
          fail refl c])
  have a: "replace_root env azurelinux root w =
           (if status env tar \<noteq> 0
            then (Inl (CalledProcessError (status env tar) tar),
                  w\<lparr>trace := trace w @ [(tar, status env tar)]\<rparr>)
            else (Inl (CalledProcessError (status env mv) mv),
                  w\<lparr>trace := trace w @ [(tar, 0), (mv, status env mv)],
                     image_root := put_path [''raspbian_preserve.tar'']
                        (Archive (archive_members (image_root w) dirs)) (image_root w)\<rparr>))"
    by (rule archive_failure_explicit [OF res ne tar mv fail])
  have b: "fst out =
           (if status env ub \<noteq> 0 then Inl (CalledProcessError (status env ub) ub)
            else if status env ur \<noteq> 0 then Inl (CalledProcessError (status env ur) ur)
            else if status env ld \<noteq> 0 then Inl (CalledProcessError (status env ld) ld)
            else if os_fails env (Rmtree boot) then Inl (OSError (Rmtree boot))
            else if os_fails env (Rmtree root) then Inl (OSError (Rmtree root))
            else Inl (CalledProcessError (status env c) c))"
    unfolding o rel Let_def ub ur ld by simp
  have t: "map fst (drop (length (trace w1)) (trace (snd out))) =
           [LosetupFindShow raspbian, Dosfsck (dev @ ''p1''), FsckExt4 (dev @ ''p2''),
            Mount (dev @ ''p1'') boot, Mount (dev @ ''p2'') root] @
           (if status env tar \<noteq> 0 then [tar] else [tar, mv]) @
           (if status env ub \<noteq> 0 then [ub]
            else if status env ur \<noteq> 0 then [ub, ur] else [ub, ur, ld])"
    unfolding o rel Let_def ub ur ld by simp
  have i: "image_root (snd out) =
           (if status env tar \<noteq> 0 then image_root w
            else put_path [''raspbian_preserve.tar'']
                   (Archive (archive_members (image_root w) dirs)) (image_root w))"
    unfolding o rel Let_def ub ur ld by (simp add: ir)
  have s: "set (top_entries (image_root w)) \<subseteq> set (top_entries (image_root (snd out)))"
    unfolding i by (simp add: top_entries_put_path)
  from a b t i s show ?thesis by (intro conjI)
qed

text \<open>
  Claim C7 as stated fails: \<^verbatim>\<open>tar cf\<close> exits with status 2, then \<^verbatim>\<open>umount\<close> of the
  boot mount point, first command of the \<^verbatim>\<open>finally\<close> (line 166), exits with status
  32. The error the call reports is the one of \<^verbatim>\<open>umount\<close>, not the one of the
  archive step.
\<close>

theorem archive_failure_error_replaced_counterexample:
  "case combine_images tar_umount_fail_env ''raspios.img'' ''azurelinux_extracted'' example_world of
     (r, w') \<Rightarrow>
       (TarCreate ''/tmp/mnt_root_k3x9wq_a/raspbian_preserve.tar''
          [''usr/lib/modules'', ''usr/lib/raspi-config''] ''/tmp/mnt_root_k3x9wq_a'', 2)
          \<in> set (trace w') \<and>
       r = Inl (CalledProcessError 32 (Umount ''/tmp/mnt_boot_k3x9wq_a''))"
  by (simp add: combine_images_def image_defs session_defs prog_defs tree_defs
        tar_umount_fail_env_def example_env_def example_world_def donor_root_def)

lemma tar_fails_provisioning:
  "fst (provisioning_session tar_fails_env ''azurelinux_extracted'' example_world) = Inr ()"
  by (simp add: session_defs prog_defs tree_defs tar_fails_env_def example_env_def
        example_world_def)

text \<open>The example run in which \<^verbatim>\<open>tar cf\<close> fails and the release succeeds.\<close>

theorem archive_failure_skips_wipe_witness:
  "fst (provisioning_session tar_fails_env ''azurelinux_extracted'' example_world) = Inr () \<and>
   resolve_preservation_set (image_root example_world) =
     Inr [''usr/lib/modules'', ''usr/lib/raspi-config''] \<and>
   status tar_fails_env (TarCreate ''/tmp/mnt_root_k3x9wq_a/raspbian_preserve.tar''
      [''usr/lib/modules'', ''usr/lib/raspi-config''] ''/tmp/mnt_root_k3x9wq_a'') = 2 \<and>
   fst (combine_images tar_fails_env ''raspios.img'' ''azurelinux_extracted'' example_world) =
     Inl (CalledProcessError 2 (TarCreate ''/tmp/mnt_root_k3x9wq_a/raspbian_preserve.tar''
      [''usr/lib/modules'', ''usr/lib/raspi-config''] ''/tmp/mnt_root_k3x9wq_a'')) \<and>
   map fst (drop
       (length (trace (snd (provisioning_session tar_fails_env ''azurelinux_extracted''
          example_world))))
       (trace (snd (combine_images tar_fails_env ''raspios.img'' ''azurelinux_extracted''
          example_world)))) =
     [LosetupFindShow ''raspios.img'', Dosfsck ''/dev/loop0p1'', FsckExt4 ''/dev/loop0p2'',
      Mount ''/dev/loop0p1'' ''/tmp/mnt_boot_k3x9wq_a'',
      Mount ''/dev/loop0p2'' ''/tmp/mnt_root_k3x9wq_a'',
      TarCreate ''/tmp/mnt_root_k3x9wq_a/raspbian_preserve.tar''
        [''usr/lib/modules'', ''usr/lib/raspi-config''] ''/tmp/mnt_root_k3x9wq_a'',
      Umount ''/tmp/mnt_boot_k3x9wq_a'', Umount ''/tmp/mnt_root_k3x9wq_a'',
      LosetupDetach ''/dev/loop0''] \<and>
   image_root (snd (combine_images tar_fails_env ''raspios.img'' ''azurelinux_extracted''
      example_world)) = donor_root"
proof -
  let ?tar = "TarCreate ''/tmp/mnt_root_k3x9wq_a/raspbian_preserve.tar''
      [''usr/lib/modules'', ''usr/lib/raspi-config''] ''/tmp/mnt_root_k3x9wq_a''"
  have st: "status tar_fails_env c = (if c = ?tar then 2 else 0)" for c
    by (simp add: tar_fails_env_def)
  have os: "\<not> os_fails tar_fails_env x" for x
    by (simp add: tar_fails_env_def example_env_def)
  have res: "resolve_preservation_set (image_root example_world) =
     Inr [''usr/lib/modules'', ''usr/lib/raspi-config'']"
    by (simp add: example_world_def donor_root_resolve)
  have tar: "?tar = TarCreate (path_join ''/tmp/mnt_root_k3x9wq_a'' ''raspbian_preserve.tar'')
      [''usr/lib/modules'', ''usr/lib/raspi-config''] ''/tmp/mnt_root_k3x9wq_a''"
    by (simp add: path_join_def)
  have dev: "''/dev/loop0'' = strip (losetup_stdout tar_fails_env)"
    by (simp add: tar_fails_env_def example_env_def strip_def is_space_def)
  have boot: "''/tmp/mnt_boot_k3x9wq_a'' =
     tempdir tar_fails_env @ ''/'' @ ''mnt_boot_'' @ mkdtemp_suffix tar_fails_env ''mnt_boot_''"
    by (simp add: tar_fails_env_def example_env_def)
  have root: "''/tmp/mnt_root_k3x9wq_a'' =
     tempdir tar_fails_env @ ''/'' @ ''mnt_root_'' @ mkdtemp_suffix tar_fails_env ''mnt_root_''"
    by (simp add: tar_fails_env_def example_env_def)
  have fail: "status tar_fails_env ?tar \<noteq> 0 \<or>
      status tar_fails_env (Mv (path_join ''/tmp/mnt_root_k3x9wq_a'' ''raspbian_preserve.tar'')
         ''/tmp/raspbian_preserve.tar'') \<noteq> 0"
    by (simp add: st)
  show ?thesis
    using archive_failure_skips_wipe [where raspbian = "''raspios.img''",
        OF tar_fails_provisioning refl _ _ _ os os _ _ dev boot root
        res _ tar refl fail refl refl refl refl refl]
      tar_fails_provisioning res
    by (simp add: st os example_world_def)
qed

end
